theory Spec2Isabelle
  imports Complex_Main
begin

section \<open>Conventions of the embedding\<close>

text \<open>
  The four Python modules are embedded as HOL functions over the reals.  A Python or
  NumPy float is a real number, extended (type \<open>npfloat\<close>) by the three special values
  that NumPy returns instead of raising: \<open>inf\<close>, \<open>-inf\<close> and \<open>nan\<close>.  Rounding, overflow
  and the sign of zero are not modelled.

  The random generator is an explicit argument: the values it hands out are read from
  functions indexed by the position of the draw, so every run of the source is the model
  at one choice of these functions.

  Exceptions are values of type \<open>py_error\<close>; a function that may raise returns
  \<open>py_error + 'a\<close> with \<open>Inl\<close> for the exception.
\<close>

datatype py_error =
    LambdaNotSet          \<comment> \<open>the \<open>ValueError\<close> raised by \<open>simulate_distribution\<close> itself\<close>
  | NotSimulated          \<comment> \<open>the \<open>ValueError\<close> raised by \<open>get_empty_ratio\<close> itself\<close>
  | NumpyValueError       \<comment> \<open>a \<open>ValueError\<close> raised inside a NumPy sampler\<close>
  | ZeroDivisionError
  | TypeError
  | IndexError

datatype npfloat = Fin real | PInf | NInf | NaN

text \<open>True division of two NumPy scalars: a zero divisor gives \<open>nan\<close> or an infinity.\<close>

fun np_div :: "npfloat \<Rightarrow> npfloat \<Rightarrow> npfloat" where
  "np_div (Fin a) (Fin b) =
     (if b \<noteq> 0 then Fin (a / b) else if a = 0 then NaN else if 0 < a then PInf else NInf)"
| "np_div (Fin a) PInf = Fin 0"
| "np_div (Fin a) NInf = Fin 0"
| "np_div PInf (Fin b) = (if 0 \<le> b then PInf else NInf)"
| "np_div NInf (Fin b) = (if 0 \<le> b then NInf else PInf)"
| "np_div _ _ = NaN"

fun np_mul :: "npfloat \<Rightarrow> npfloat \<Rightarrow> npfloat" where
  "np_mul (Fin a) (Fin b) = Fin (a * b)"
| "np_mul (Fin a) PInf = (if a = 0 then NaN else if 0 < a then PInf else NInf)"
| "np_mul (Fin a) NInf = (if a = 0 then NaN else if 0 < a then NInf else PInf)"
| "np_mul PInf (Fin b) = (if b = 0 then NaN else if 0 < b then PInf else NInf)"
| "np_mul NInf (Fin b) = (if b = 0 then NaN else if 0 < b then NInf else PInf)"
| "np_mul PInf PInf = PInf"
| "np_mul NInf NInf = PInf"
| "np_mul PInf NInf = NInf"
| "np_mul NInf PInf = NInf"
| "np_mul _ _ = NaN"

fun np_add :: "npfloat \<Rightarrow> npfloat \<Rightarrow> npfloat" where
  "np_add (Fin a) (Fin b) = Fin (a + b)"
| "np_add (Fin a) PInf = PInf"
| "np_add (Fin a) NInf = NInf"
| "np_add PInf (Fin b) = PInf"
| "np_add NInf (Fin b) = NInf"
| "np_add PInf PInf = PInf"
| "np_add NInf NInf = NInf"
| "np_add _ _ = NaN"

fun np_neg :: "npfloat \<Rightarrow> npfloat" where
  "np_neg (Fin a) = Fin (- a)"
| "np_neg PInf = NInf"
| "np_neg NInf = PInf"
| "np_neg NaN = NaN"

fun np_sqrt :: "npfloat \<Rightarrow> npfloat" where
  "np_sqrt (Fin a) = (if 0 \<le> a then Fin (sqrt a) else NaN)"
| "np_sqrt PInf = PInf"
| "np_sqrt _ = NaN"

fun np_log :: "npfloat \<Rightarrow> npfloat" where
  "np_log (Fin a) = (if 0 < a then Fin (ln a) else if a = 0 then NInf else NaN)"
| "np_log PInf = PInf"
| "np_log _ = NaN"

fun np_exp :: "npfloat \<Rightarrow> npfloat" where
  "np_exp (Fin a) = Fin (exp a)"
| "np_exp PInf = PInf"
| "np_exp NInf = Fin 0"
| "np_exp NaN = NaN"

text \<open>Comparison: every comparison with \<open>nan\<close> is false.\<close>

fun np_le :: "npfloat \<Rightarrow> npfloat \<Rightarrow> bool" where
  "np_le (Fin a) (Fin b) = (a \<le> b)"
| "np_le NaN _ = False"
| "np_le _ NaN = False"
| "np_le NInf _ = True"
| "np_le _ PInf = True"
| "np_le _ _ = False"

section \<open>\<open>droplets_simulation2.py\<close>: class \<open>DigitalPCRSimulator\<close>\<close>

record DigitalPCRSimulator =
  n_droplets :: int
  lambda_value :: "real option"
  distribution :: "nat list option"

definition init :: "int \<Rightarrow> DigitalPCRSimulator" where
  "init n = \<lparr>n_droplets = n, lambda_value = None, distribution = None\<rparr>"

text \<open>
  Every method returns its result (or the exception) together with the object after the
  call.  \<open>total_copies / self.n_droplets\<close> divides two Python numbers, which raises on a
  zero divisor before the attribute is assigned.
\<close>

definition set_lambda_from_copies ::
  "DigitalPCRSimulator \<Rightarrow> real \<Rightarrow> (py_error + real) \<times> DigitalPCRSimulator" where
  "set_lambda_from_copies self total_copies =
     (if n_droplets self = 0 then (Inl ZeroDivisionError, self)
      else let l = total_copies / of_int (n_droplets self)
           in (Inr l, self\<lparr>lambda_value := Some l\<rparr>))"

definition set_lambda_from_concentration ::
  "DigitalPCRSimulator \<Rightarrow> real \<Rightarrow> real \<Rightarrow> (py_error + real) \<times> DigitalPCRSimulator" where
  "set_lambda_from_concentration self concentration droplet_volume =
     (let l = concentration * droplet_volume
      in (Inr l, self\<lparr>lambda_value := Some l\<rparr>))"

text \<open>
  The Poisson samplers of NumPy check the rate before they draw: a negative rate is
  rejected (\<open>lam < 0\<close>), and so is a rate above \<open>POISSON_LAM_MAX\<close>
  (\<open>lam value too large\<close>), which NumPy defines as
  \<open>np.iinfo('int64').max - np.sqrt(np.iinfo('int64').max) * 10\<close>, about \<open>9.22e18\<close>.
\<close>

definition poisson_lam_max :: real where
  "poisson_lam_max = (2 ^ 63 - 1) - sqrt (2 ^ 63 - 1) * 10"

definition poisson_rejects :: "real \<Rightarrow> bool" where
  "poisson_rejects lam = (lam < 0 \<or> poisson_lam_max < lam)"

text \<open>
  \<open>np.random.poisson(lam, size)\<close>: the sampler rejects the rate as above, and a negative
  size; otherwise it returns as many counts as the size says.  \<open>draw i\<close> is the outcome
  of the \<open>i\<close>-th draw; at rate zero the outcome is zero whatever the generator does.
\<close>

definition np_random_poisson :: "(nat \<Rightarrow> nat) \<Rightarrow> real \<Rightarrow> int \<Rightarrow> py_error + nat list" where
  "np_random_poisson draw lam n =
     (if poisson_rejects lam \<or> n < 0 then Inl NumpyValueError
      else Inr (map (\<lambda>i. if lam = 0 then 0 else draw i) [0..<nat n]))"

definition simulate_distribution ::
  "(nat \<Rightarrow> nat) \<Rightarrow> DigitalPCRSimulator \<Rightarrow> (py_error + nat list) \<times> DigitalPCRSimulator" where
  "simulate_distribution draw self =
     (case lambda_value self of
        None \<Rightarrow> (Inl LambdaNotSet, self)
      | Some lam \<Rightarrow>
          (case np_random_poisson draw lam (n_droplets self) of
             Inl e \<Rightarrow> (Inl e, self)
           | Inr d \<Rightarrow> (Inr d, self\<lparr>distribution := Some d\<rparr>)))"

text \<open>
  \<open>np.sum(self.distribution == 0) / self.n_droplets\<close> divides a NumPy integer, so a zero
  divisor gives \<open>nan\<close> or \<open>inf\<close> and does not raise.  \<open>-self.lambda_value\<close> on \<open>None\<close> is a
  \<open>TypeError\<close>.
\<close>

definition get_empty_ratio ::
  "DigitalPCRSimulator \<Rightarrow> (py_error + npfloat \<times> npfloat) \<times> DigitalPCRSimulator" where
  "get_empty_ratio self =
     (case distribution self of
        None \<Rightarrow> (Inl NotSimulated, self)
      | Some d \<Rightarrow>
          (let actual_empty =
                 np_div (Fin (of_nat (length (filter (\<lambda>c. c = 0) d))))
                        (Fin (of_int (n_droplets self)))
           in case lambda_value self of
                None \<Rightarrow> (Inl TypeError, self)
              | Some lam \<Rightarrow> (Inr (actual_empty, np_exp (Fin (- lam))), self)))"

text \<open>
  The objects a program can hold: built by the constructor and changed by the methods
  only.
\<close>

inductive reachable :: "DigitalPCRSimulator \<Rightarrow> bool" where
  r_init: "reachable (init n)"
| r_copies: "reachable s \<Longrightarrow> reachable (snd (set_lambda_from_copies s total_copies))"
| r_conc: "reachable s \<Longrightarrow>
     reachable (snd (set_lambda_from_concentration s concentration droplet_volume))"
| r_sim: "reachable s \<Longrightarrow> reachable (snd (simulate_distribution draw s))"
| r_ratio: "reachable s \<Longrightarrow> reachable (snd (get_empty_ratio s))"

definition raises :: "(py_error + 'a) \<times> 's \<Rightarrow> bool" where
  "raises r = (case fst r of Inl _ \<Rightarrow> True | Inr _ \<Rightarrow> False)"

text \<open>
  The parameters the caller is to supply: a number of droplets, and (once set) a rate
  \<open>\<lambda> \<ge> 0\<close> that the Poisson sampler accepts.
\<close>

definition valid_simulator :: "DigitalPCRSimulator \<Rightarrow> bool" where
  "valid_simulator s =
     (0 \<le> n_droplets s \<and>
      (case lambda_value s of None \<Rightarrow> True | Some lam \<Rightarrow> \<not> poisson_rejects lam))"

section \<open>The random generator and the NumPy functions the modules call\<close>

text \<open>
  One record holds what \<open>rng = np.random.default_rng()\<close> hands out during a run:
  \<^item> \<open>normals i\<close>: the standard normal variate behind element \<open>i\<close> of
    \<open>rng.normal(loc, scale, n)\<close>, which is \<open>loc + scale * normals i\<close>;
  \<^item> \<open>poissons i\<close>: the outcome of element \<open>i\<close> of \<open>rng.poisson(lambdas)\<close>;
  \<^item> \<open>randoms i\<close>: the value of \<open>rng.random()\<close> in iteration \<open>i\<close> of the loop that
    applies the false calls (each iteration calls it exactly once), in \<open>[0, 1)\<close>;
  \<^item> \<open>uniforms idx a\<close>: the two variates of \<open>[0, 1)\<close> behind the candidate centre of
    attempt \<open>a\<close> for droplet \<open>idx\<close>; \<open>rng.uniform(low, high)\<close> is
    \<open>low + (high - low) * u\<close>.
\<close>

record rng_draws =
  normals :: "nat \<Rightarrow> real"
  poissons :: "nat \<Rightarrow> nat"
  randoms :: "nat \<Rightarrow> real"
  uniforms :: "nat \<Rightarrow> nat \<Rightarrow> real \<times> real"

text \<open>The values a generator can hand out.\<close>

definition unit_interval :: "real \<Rightarrow> bool" where
  "unit_interval u = (0 \<le> u \<and> u < 1)"

definition rng_ok :: "rng_draws \<Rightarrow> bool" where
  "rng_ok rng =
     ((\<forall>i. unit_interval (randoms rng i)) \<and>
      (\<forall>idx a. unit_interval (fst (uniforms rng idx a)) \<and>
               unit_interval (snd (uniforms rng idx a))))"

text \<open>\<open>Generator.normal\<close> rejects a negative scale and a negative size.\<close>

definition rng_normal :: "(nat \<Rightarrow> real) \<Rightarrow> real \<Rightarrow> real \<Rightarrow> int \<Rightarrow> py_error + real list" where
  "rng_normal z loc scale n =
     (if scale < 0 \<or> n < 0 then Inl NumpyValueError
      else Inr (map (\<lambda>i. loc + scale * z i) [0..<nat n]))"

text \<open>
  \<open>Generator.poisson\<close> on an array of rates rejects the array if it rejects one of the
  rates.
\<close>

definition rng_poisson :: "(nat \<Rightarrow> nat) \<Rightarrow> real list \<Rightarrow> py_error + nat list" where
  "rng_poisson draw lambdas =
     (if list_ex poisson_rejects lambdas then Inl NumpyValueError
      else Inr (map (\<lambda>i. if lambdas ! i = 0 then 0 else draw i) [0..<length lambdas]))"

text \<open>\<open>Generator.uniform\<close> rejects \<open>high - low < 0\<close>.\<close>

definition rng_uniform :: "real \<Rightarrow> real \<Rightarrow> real \<Rightarrow> py_error + real" where
  "rng_uniform low high u =
     (if high - low < 0 then Inl NumpyValueError else Inr (low + (high - low) * u))"

text \<open>\<open>np.clip(a, a_min, a_max)\<close> is \<open>minimum(a_max, maximum(a, a_min))\<close>.\<close>

definition np_clip :: "real \<Rightarrow> real \<Rightarrow> real \<Rightarrow> real" where
  "np_clip a a_min a_max = min a_max (max a a_min)"

definition np_hypot :: "real \<Rightarrow> real \<Rightarrow> real" where
  "np_hypot a b = sqrt (a\<^sup>2 + b\<^sup>2)"

text \<open>\<open>np.mean\<close> and \<open>np.std\<close> of an empty sequence are \<open>nan\<close> (with a warning).\<close>

definition np_mean :: "real list \<Rightarrow> npfloat" where
  "np_mean xs = (if xs = [] then NaN else Fin (sum_list xs / of_nat (length xs)))"

definition np_std :: "real list \<Rightarrow> npfloat" where
  "np_std xs =
     (if xs = [] then NaN
      else let m = sum_list xs / of_nat (length xs)
           in Fin (sqrt (sum_list (map (\<lambda>x. (x - m)\<^sup>2) xs) / of_nat (length xs))))"

text \<open>\<open>int(x)\<close> on a float truncates towards zero.\<close>

definition py_int :: "real \<Rightarrow> int" where
  "py_int x = (if 0 \<le> x then \<lfloor>x\<rfloor> else \<lceil>x\<rceil>)"

text \<open>\<open>a / b\<close> on two Python numbers raises on a zero divisor.\<close>

definition py_truediv :: "real \<Rightarrow> real \<Rightarrow> py_error + real" where
  "py_truediv a b = (if b = 0 then Inl ZeroDivisionError else Inr (a / b))"

text \<open>What a call returned, if it did not raise.\<close>

definition result_of :: "py_error + 'a \<Rightarrow> 'a option" where
  "result_of r = (case r of Inl e \<Rightarrow> None | Inr v \<Rightarrow> Some v)"

definition py_index :: "'a list \<Rightarrow> nat \<Rightarrow> py_error + 'a" where
  "py_index xs i = (if i < length xs then Inr (xs ! i) else Inl IndexError)"

text \<open>The volume in microlitres of a sphere of the given diameter in micrometres.\<close>

definition sphere_volume_ul :: "real \<Rightarrow> real" where
  "sphere_volume_ul d = (4 / 3) * pi * (d / 2) ^ 3 / 1000000000"

section \<open>\<open>droplets_simulation_data.py\<close>: \<open>calculate_ddpcr_statistics\<close>\<close>

record tallies =
  true_positive :: nat
  false_positive :: nat
  true_negative :: nat
  false_negative :: nat

text \<open>The body of the loop of lines 54 to 64, at index \<open>i\<close>.\<close>

definition tally_step ::
  "(nat \<Rightarrow> real) \<Rightarrow> nat list \<Rightarrow> real list \<Rightarrow> real list \<Rightarrow> tallies \<Rightarrow> nat \<Rightarrow> tallies" where
  "tally_step random molecular_counts dynamic_false_negative_rates
       dynamic_false_positive_rates t i =
     (if molecular_counts ! i > 0 then
        (if random i < dynamic_false_negative_rates ! i
         then t\<lparr>false_negative := false_negative t + 1\<rparr>
         else t\<lparr>true_positive := true_positive t + 1\<rparr>)
      else
        (if random i < dynamic_false_positive_rates ! i
         then t\<lparr>false_positive := false_positive t + 1\<rparr>
         else t\<lparr>true_negative := true_negative t + 1\<rparr>))"

definition tally_loop ::
  "(nat \<Rightarrow> real) \<Rightarrow> nat list \<Rightarrow> real list \<Rightarrow> real list \<Rightarrow> tallies" where
  "tally_loop random molecular_counts dynamic_false_negative_rates
       dynamic_false_positive_rates =
     foldl (tally_step random molecular_counts dynamic_false_negative_rates
              dynamic_false_positive_rates)
       \<lparr>true_positive = 0, false_positive = 0, true_negative = 0, false_negative = 0\<rparr>
       [0..<length molecular_counts]"

text \<open>
  The dictionary that the function returns, with its keys in English.  The last four
  fields are not keys of the dictionary: they are the local arrays \<open>diameters\<close>,
  \<open>molecular_counts\<close>, \<open>dynamic_false_negative_rates\<close> and
  \<open>dynamic_false_positive_rates\<close>, kept so that properties of the droplets can be
  stated.
\<close>

record ddpcr_stats =
  stat_total_volume_ul :: real
  stat_actual_volume :: real
  stat_total_drops :: nat
  stat_mean_diameter :: npfloat
  stat_std_diameter :: npfloat
  stat_cv_diameter :: npfloat
  stat_tp_count :: nat
  stat_fp_count :: nat
  stat_tn_count :: nat
  stat_fn_count :: nat
  stat_fp_rate :: real
  stat_fn_rate :: real
  stat_lod_copies_per_ul :: npfloat
  stat_loq_copies_per_ul :: npfloat
  stat_concentration_ci_lower :: npfloat
  stat_concentration_ci_upper :: npfloat
  trace_diameters :: "real list"
  trace_molecular_counts :: "nat list"
  trace_false_negative_rates :: "real list"
  trace_false_positive_rates :: "real list"

text \<open>Lines 74 to 76.\<close>

definition blank_lambda :: "real \<Rightarrow> npfloat" where
  "blank_lambda false_positive_rate = np_neg (np_log (Fin (1 - false_positive_rate)))"

definition lod_of :: "real \<Rightarrow> real \<Rightarrow> npfloat" where
  "lod_of false_positive_rate single_droplet_volume =
     np_div (np_add (blank_lambda false_positive_rate)
                    (np_mul (Fin 3) (np_sqrt (blank_lambda false_positive_rate))))
            (Fin single_droplet_volume)"

definition loq_of :: "real \<Rightarrow> real \<Rightarrow> npfloat" where
  "loq_of false_positive_rate single_droplet_volume =
     np_mul (Fin (33 / 10)) (lod_of false_positive_rate single_droplet_volume)"

text \<open>
  Lines 85 and 86: one bound of the binomial interval, a number of droplets, turned into
  a concentration.
\<close>

definition ci_to_concentration :: "real \<Rightarrow> nat \<Rightarrow> real \<Rightarrow> npfloat" where
  "ci_to_concentration ci_bound total_drops single_droplet_volume =
     np_div (np_neg (np_log (Fin (1 - ci_bound / of_nat total_drops))))
            (Fin single_droplet_volume)"

text \<open>
  \<open>scipy.stats.binom.interval\<close> belongs to a library and is an argument of the model:
  \<open>binom_interval confidence n p\<close> is the pair of bounds it returns.
\<close>

text \<open>
  Lines 43 to 131, everything after the draws of the sizes and of the molecule counts:
  the dynamic rates, the loop of the calls, the limits, the interval and the dictionary.
  Nothing here raises.
\<close>

definition statistics_of ::
  "(nat \<Rightarrow> real) \<Rightarrow> (real \<Rightarrow> nat \<Rightarrow> real \<Rightarrow> real \<times> real) \<Rightarrow>
   real \<Rightarrow> real \<Rightarrow> real \<Rightarrow> real \<Rightarrow> real \<Rightarrow> real list \<Rightarrow> nat list \<Rightarrow> ddpcr_stats" where
  "statistics_of random binom_interval total_volume_ul average_diameter_um
       false_negative_rate false_positive_rate confidence_level diameters
       molecular_counts =
     (let single_droplet_volume = sphere_volume_ul average_diameter_um;
          volumes = map sphere_volume_ul diameters;
          relative_diameters = map (\<lambda>d. d / average_diameter_um) diameters;
          dynamic_false_negative_rates =
            map (\<lambda>r. false_negative_rate * r) relative_diameters;
          dynamic_false_positive_rates =
            map (\<lambda>r. false_positive_rate * r) relative_diameters;
          t = tally_loop random molecular_counts dynamic_false_negative_rates
                dynamic_false_positive_rates;
          total_drops = length molecular_counts;
          total_positive = true_positive t + false_positive t;
          ci = (if total_drops > 0 then
                  (let positive_ratio = of_nat total_positive / of_nat total_drops;
                       ci_bounds =
                         binom_interval confidence_level total_drops positive_ratio
                   in (ci_to_concentration (fst ci_bounds) total_drops
                         single_droplet_volume,
                       ci_to_concentration (snd ci_bounds) total_drops
                         single_droplet_volume))
                else (Fin 0, Fin 0))
      in \<lparr>stat_total_volume_ul = total_volume_ul,
          stat_actual_volume = sum_list volumes,
          stat_total_drops = total_drops,
          stat_mean_diameter = np_mean diameters,
          stat_std_diameter = np_std diameters,
          stat_cv_diameter = np_div (np_std diameters) (np_mean diameters),
          stat_tp_count = true_positive t,
          stat_fp_count = false_positive t,
          stat_tn_count = true_negative t,
          stat_fn_count = false_negative t,
          stat_fp_rate =
            (if total_drops > 0 then of_nat (false_positive t) / of_nat total_drops else 0),
          stat_fn_rate =
            (if total_drops > 0 then of_nat (false_negative t) / of_nat total_drops else 0),
          stat_lod_copies_per_ul = lod_of false_positive_rate single_droplet_volume,
          stat_loq_copies_per_ul = loq_of false_positive_rate single_droplet_volume,
          stat_concentration_ci_lower = fst ci,
          stat_concentration_ci_upper = snd ci,
          trace_diameters = diameters,
          trace_molecular_counts = molecular_counts,
          trace_false_negative_rates = dynamic_false_negative_rates,
          trace_false_positive_rates = dynamic_false_positive_rates\<rparr>)"

text \<open>
  Lines 29 to 41, the part that can raise: the number of droplets, the sizes and the
  molecule counts.
\<close>

definition calculate_ddpcr_statistics ::
  "rng_draws \<Rightarrow> (real \<Rightarrow> nat \<Rightarrow> real \<Rightarrow> real \<times> real) \<Rightarrow>
   real \<Rightarrow> real \<Rightarrow> real \<Rightarrow> real \<Rightarrow> real \<Rightarrow> real \<Rightarrow> real \<Rightarrow> py_error + ddpcr_stats" where
  "calculate_ddpcr_statistics rng binom_interval total_volume_ul average_diameter_um
       concentration false_negative_rate false_positive_rate diameter_variance
       confidence_level =
     (let single_droplet_volume = sphere_volume_ul average_diameter_um in
      case py_truediv total_volume_ul single_droplet_volume of
        Inl e \<Rightarrow> Inl e
      | Inr q \<Rightarrow>
     (let num_droplets = py_int q in
      case rng_normal (normals rng) average_diameter_um
             (average_diameter_um * diameter_variance) num_droplets of
        Inl e \<Rightarrow> Inl e
      | Inr raw \<Rightarrow>
     (let diameters =
            map (\<lambda>d. np_clip d (average_diameter_um * (8 / 10))
                                (average_diameter_um * (12 / 10))) raw;
          volumes = map sphere_volume_ul diameters;
          lambdas = map (\<lambda>v. concentration * v) volumes in
      case rng_poisson (poissons rng) lambdas of
        Inl e \<Rightarrow> Inl e
      | Inr molecular_counts \<Rightarrow>
          Inr (statistics_of (randoms rng) binom_interval total_volume_ul
                 average_diameter_um false_negative_rate false_positive_rate
                 confidence_level diameters molecular_counts))))"

section \<open>The placement loop of the two image generators\<close>

text \<open>
  Lines 29 to 51 of \<open>droplets_simulation.py\<close> and lines 71 to 91 of
  \<open>droplets_simulation_new.py\<close> are the same text; it is embedded once.  A placed
  droplet is the tuple \<open>(x, y, radius, molecular_counts[idx])\<close>.
\<close>

type_synonym placed = "real \<times> real \<times> real \<times> nat"

definition max_attempts :: nat where
  "max_attempts = 100"

text \<open>The inner \<open>for\<close> over the droplets placed so far, with its \<open>break\<close>.\<close>

definition collision :: "real \<Rightarrow> real \<Rightarrow> real \<Rightarrow> placed list \<Rightarrow> bool" where
  "collision x y radius droplets =
     list_ex (\<lambda>(ox, oy, oradius, c). np_hypot (x - ox) (y - oy) < radius + oradius + 2)
       droplets"

text \<open>
  \<open>for _ in range(max_attempts)\<close>: \<open>a\<close> is the number of the attempt and the last
  argument counts the attempts that are left.  The result is the centre that was
  accepted, or \<open>None\<close> when the loop ends without a \<open>break\<close>.
\<close>

fun place_attempts ::
  "(nat \<Rightarrow> real \<times> real) \<Rightarrow> real \<Rightarrow> real \<Rightarrow> real \<Rightarrow> placed list \<Rightarrow> nat \<Rightarrow> nat \<Rightarrow>
   py_error + (real \<times> real) option" where
  "place_attempts cand w h radius droplets a 0 = Inr None"
| "place_attempts cand w h radius droplets a (Suc k) =
     (case rng_uniform radius (w - radius) (fst (cand a)) of
        Inl e \<Rightarrow> Inl e
      | Inr x \<Rightarrow>
     (case rng_uniform radius (h - radius) (snd (cand a)) of
        Inl e \<Rightarrow> Inl e
      | Inr y \<Rightarrow>
          if collision x y radius droplets
          then place_attempts cand w h radius droplets (Suc a) k
          else Inr (Some (x, y))))"

text \<open>
  \<open>for idx in range(num_droplets)\<close>: the list argument holds the indices that are left,
  each with \<open>diameters[idx]\<close> and \<open>molecular_counts[idx]\<close>.
\<close>

fun place_loop ::
  "(nat \<Rightarrow> nat \<Rightarrow> real \<times> real) \<Rightarrow> real \<Rightarrow> real \<Rightarrow> (nat \<times> real \<times> nat) list \<Rightarrow>
   placed list \<Rightarrow> py_error + placed list" where
  "place_loop cand w h [] droplets = Inr droplets"
| "place_loop cand w h ((idx, diameter, c) # rest) droplets =
     (let radius = diameter / 2 in
      case place_attempts (cand idx) w h radius droplets 0 max_attempts of
        Inl e \<Rightarrow> Inl e
      | Inr None \<Rightarrow> place_loop cand w h rest droplets
      | Inr (Some (x, y)) \<Rightarrow> place_loop cand w h rest (droplets @ [(x, y, radius, c)]))"

definition place_droplets ::
  "(nat \<Rightarrow> nat \<Rightarrow> real \<times> real) \<Rightarrow> real \<times> real \<Rightarrow> real list \<Rightarrow> nat list \<Rightarrow>
   py_error + placed list" where
  "place_droplets cand image_size diameters molecular_counts =
     place_loop cand (fst image_size) (snd image_size)
       (zip [0..<length diameters] (zip diameters molecular_counts)) []"

text \<open>
  The geometry the placement is meant to keep: two placed droplets are far apart when
  the distance of their centres is at least the sum of their radii plus 2 pixels; a
  placed droplet is inside the canvas when its centre is at least its radius away from
  every edge.
\<close>

definition far_apart :: "placed \<Rightarrow> placed \<Rightarrow> bool" where
  "far_apart d e =
     (case d of (x, y, radius, c) \<Rightarrow>
      case e of (ox, oy, oradius, oc) \<Rightarrow>
        radius + oradius + 2 \<le> np_hypot (x - ox) (y - oy))"

definition separated :: "placed list \<Rightarrow> bool" where
  "separated droplets =
     (\<forall>i<length droplets. \<forall>j<length droplets.
        i \<noteq> j \<longrightarrow> far_apart (droplets ! i) (droplets ! j))"

definition inside_canvas :: "real \<Rightarrow> real \<Rightarrow> placed list \<Rightarrow> bool" where
  "inside_canvas w h droplets =
     list_all (\<lambda>(x, y, radius, c).
        radius \<le> x \<and> x \<le> w - radius \<and> radius \<le> y \<and> y \<le> h - radius) droplets"

text \<open>The candidate centre of attempt \<open>a\<close> for a droplet of the given radius.\<close>

definition candidate :: "(nat \<Rightarrow> real \<times> real) \<Rightarrow> real \<Rightarrow> real \<Rightarrow> real \<Rightarrow> nat \<Rightarrow> real \<times> real" where
  "candidate cand w h radius a =
     (radius + (w - radius - radius) * fst (cand a),
      radius + (h - radius - radius) * snd (cand a))"

definition pixels_per_um :: real where
  "pixels_per_um = 37 / 100"

section \<open>\<open>droplets_simulation.py\<close>: \<open>generate_ddpcr_image\<close>\<close>

text \<open>
  The function draws the image and returns nothing; the model returns the list
  \<open>droplets\<close> that it draws, together with the arrays \<open>diameters\<close> (in pixels) and
  \<open>molecular_counts\<close>.  The brightness of a droplet and the file are not modelled.
\<close>

definition generate_ddpcr_image ::
  "rng_draws \<Rightarrow> real \<Rightarrow> real \<Rightarrow> real \<times> real \<Rightarrow> int \<Rightarrow>
   py_error + real list \<times> nat list \<times> placed list" where
  "generate_ddpcr_image rng average_diameter_um concentration image_size num_droplets =
     (let average_diameter_pixels = average_diameter_um * pixels_per_um in
      case rng_normal (normals rng) average_diameter_pixels
             (average_diameter_pixels * (1 / 10)) num_droplets of
        Inl e \<Rightarrow> Inl e
      | Inr raw \<Rightarrow>
     (let diameters = map (\<lambda>d. max d 1) raw;
          diameters_um = map (\<lambda>d. d / pixels_per_um) diameters;
          volumes = map sphere_volume_ul diameters_um;
          lambdas = map (\<lambda>v. concentration * v) volumes in
      case rng_poisson (poissons rng) lambdas of
        Inl e \<Rightarrow> Inl e
      | Inr molecular_counts \<Rightarrow>
     (case place_droplets (uniforms rng) image_size diameters molecular_counts of
        Inl e \<Rightarrow> Inl e
      | Inr droplets \<Rightarrow> Inr (diameters, molecular_counts, droplets))))"

section \<open>\<open>droplets_simulation_new.py\<close>: \<open>generate_ddpcr_image\<close>\<close>

record droplet_state =
  st_count :: nat
  is_false_negative :: bool
  is_false_positive :: bool

text \<open>
  The four values of \<open>display_status\<close>, which the source writes as Chinese strings:
  true positive, false positive, true negative, false negative.
\<close>

datatype display_status = TruePositive | FalsePositive | TrueNegative | FalseNegative

text \<open>A row of \<open>droplet_data\<close>, without the brightness.\<close>

record droplet_row =
  row_diameter_um :: real
  row_x :: real
  row_y :: real
  row_count :: nat
  row_status :: display_status

text \<open>The body of the loop of lines 54 to 69, at index \<open>i\<close>.\<close>

definition droplet_state_at ::
  "(nat \<Rightarrow> real) \<Rightarrow> nat list \<Rightarrow> real list \<Rightarrow> real list \<Rightarrow> nat \<Rightarrow> droplet_state" where
  "droplet_state_at random molecular_counts dynamic_false_negative_rates
       dynamic_false_positive_rates i =
     (if molecular_counts ! i > 0 then
        \<lparr>st_count = molecular_counts ! i,
         is_false_negative = (random i < dynamic_false_negative_rates ! i),
         is_false_positive = False\<rparr>
      else
        \<lparr>st_count = molecular_counts ! i,
         is_false_negative = False,
         is_false_positive = (random i < dynamic_false_positive_rates ! i)\<rparr>)"

text \<open>Lines 104 to 120: the status of a drawn droplet from a state and its own count.\<close>

definition display_status_of :: "droplet_state \<Rightarrow> nat \<Rightarrow> display_status" where
  "display_status_of state c =
     (if is_false_negative state then FalseNegative
      else if is_false_positive state then FalsePositive
      else if c > 0 then TruePositive
      else TrueNegative)"

text \<open>
  \<open>for idx, (x, y, radius, count) in enumerate(droplets)\<close> with
  \<open>state = droplet_states[idx]\<close>: \<open>idx\<close> is the position in the list of placed droplets.
\<close>

fun data_loop ::
  "droplet_state list \<Rightarrow> (nat \<times> placed) list \<Rightarrow> py_error + droplet_row list" where
  "data_loop droplet_states [] = Inr []"
| "data_loop droplet_states ((idx, (x, y, radius, c)) # rest) =
     (case py_index droplet_states idx of
        Inl e \<Rightarrow> Inl e
      | Inr state \<Rightarrow>
          (case data_loop droplet_states rest of
             Inl e \<Rightarrow> Inl e
           | Inr rows \<Rightarrow>
               Inr (\<lparr>row_diameter_um = (radius * 2) / pixels_per_um,
                      row_x = x, row_y = y, row_count = c,
                      row_status = display_status_of state c\<rparr> # rows)))"

text \<open>The summary of lines 147 to 197; the two rates divide Python integers.\<close>

record summary_stats =
  sum_total_drops :: nat
  sum_true_positive :: nat
  sum_false_positive :: nat
  sum_true_negative :: nat
  sum_false_negative :: nat
  sum_false_positive_rate :: real
  sum_false_negative_rate :: real
  sum_mean_diameter :: npfloat
  sum_std_diameter :: npfloat
  sum_cv_diameter :: npfloat

definition count_status :: "display_status \<Rightarrow> droplet_row list \<Rightarrow> nat" where
  "count_status st droplet_data = length (filter (\<lambda>d. row_status d = st) droplet_data)"

definition summarize :: "droplet_row list \<Rightarrow> py_error + summary_stats" where
  "summarize droplet_data =
     (let total_drops = length droplet_data;
          tp = count_status TruePositive droplet_data;
          fp = count_status FalsePositive droplet_data;
          tn = count_status TrueNegative droplet_data;
          fn = count_status FalseNegative droplet_data;
          diameters = map row_diameter_um droplet_data in
      case py_truediv (of_nat fp) (of_nat total_drops) of
        Inl e \<Rightarrow> Inl e
      | Inr fp_rate \<Rightarrow>
     (case py_truediv (of_nat fn) (of_nat total_drops) of
        Inl e \<Rightarrow> Inl e
      | Inr fn_rate \<Rightarrow>
          Inr \<lparr>sum_total_drops = total_drops,
               sum_true_positive = tp,
               sum_false_positive = fp,
               sum_true_negative = tn,
               sum_false_negative = fn,
               sum_false_positive_rate = fp_rate,
               sum_false_negative_rate = fn_rate,
               sum_mean_diameter = np_mean diameters,
               sum_std_diameter = np_std diameters,
               sum_cv_diameter = np_div (np_std diameters) (np_mean diameters)\<rparr>))"

text \<open>
  The function writes an image and a workbook and returns nothing; the model returns
  the intermediate arrays the properties speak about and what the workbook holds: the
  arrays \<open>diameters\<close> (in pixels), \<open>diameters_um\<close> and \<open>molecular_counts\<close>, the two
  arrays of dynamic rates, \<open>droplet_states\<close>, the placed \<open>droplets\<close>, the rows of
  \<open>droplet_data\<close> and the summary.  File names, the image and
  the brightness are not modelled.
\<close>

record image_run =
  run_diameters :: "real list"
  run_diameters_um :: "real list"
  run_molecular_counts :: "nat list"
  run_false_negative_rates :: "real list"
  run_false_positive_rates :: "real list"
  run_droplet_states :: "droplet_state list"
  run_droplets :: "placed list"
  run_droplet_data :: "droplet_row list"
  run_summary :: summary_stats

definition generate_ddpcr_image_new ::
  "rng_draws \<Rightarrow> real \<Rightarrow> real \<Rightarrow> real \<times> real \<Rightarrow> int \<Rightarrow> real \<Rightarrow> real \<Rightarrow> real \<Rightarrow>
   py_error + image_run" where
  "generate_ddpcr_image_new rng average_diameter_um concentration image_size
       num_droplets false_negative_rate false_positive_rate diameter_variance =
     (let average_diameter_pixels = average_diameter_um * pixels_per_um;
          std_dev = average_diameter_pixels * diameter_variance in
      case rng_normal (normals rng) average_diameter_pixels std_dev num_droplets of
        Inl e \<Rightarrow> Inl e
      | Inr raw \<Rightarrow>
     (let diameters =
            map (\<lambda>d. np_clip d (average_diameter_pixels * (8 / 10))
                                (average_diameter_pixels * (12 / 10))) raw;
          diameters_um = map (\<lambda>d. d / pixels_per_um) diameters;
          volumes = map sphere_volume_ul diameters_um;
          lambdas = map (\<lambda>v. concentration * v) volumes in
      case rng_poisson (poissons rng) lambdas of
        Inl e \<Rightarrow> Inl e
      | Inr molecular_counts \<Rightarrow>
     (let relative_diameters = map (\<lambda>d. d / average_diameter_um) diameters_um;
          dynamic_false_negative_rates =
            map (\<lambda>r. false_negative_rate * r) relative_diameters;
          dynamic_false_positive_rates =
            map (\<lambda>r. false_positive_rate * r) relative_diameters;
          droplet_states =
            map (droplet_state_at (randoms rng) molecular_counts
                   dynamic_false_negative_rates dynamic_false_positive_rates)
              [0..<length molecular_counts] in
      case place_droplets (uniforms rng) image_size diameters molecular_counts of
        Inl e \<Rightarrow> Inl e
      | Inr droplets \<Rightarrow>
     (case data_loop droplet_states (zip [0..<length droplets] droplets) of
        Inl e \<Rightarrow> Inl e
      | Inr droplet_data \<Rightarrow>
     (case summarize droplet_data of
        Inl e \<Rightarrow> Inl e
      | Inr summary \<Rightarrow>
          Inr \<lparr>run_diameters = diameters,
               run_diameters_um = diameters_um,
               run_molecular_counts = molecular_counts,
               run_false_negative_rates = dynamic_false_negative_rates,
               run_false_positive_rates = dynamic_false_positive_rates,
               run_droplet_states = droplet_states,
               run_droplets = droplets,
               run_droplet_data = droplet_data,
               run_summary = summary\<rparr>)))))"

section \<open>Concrete runs\<close>

text \<open>Generators and objects at which the properties below are evaluated.\<close>

definition no_copies :: "nat \<Rightarrow> nat" where
  "no_copies i = 0"

definition sim_half :: DigitalPCRSimulator where
  "sim_half = snd (set_lambda_from_copies (init 4) 2)"

text \<open>
  A generator for three droplets of the mean diameter: droplet 1 holds one molecule and
  is read as negative; every candidate centre of droplets 0 and 1 is the middle of the
  canvas, every candidate centre of droplet 2 is the corner.
\<close>

definition rng_shift :: rng_draws where
  "rng_shift =
     \<lparr>normals = (\<lambda>i. 0),
      poissons = (\<lambda>i. if i = 1 then 1 else 0),
      randoms = (\<lambda>i. if i = 1 then 0 else 9 / 10),
      uniforms = (\<lambda>idx a. if idx = 2 then (0, 0) else (1 / 2, 1 / 2))\<rparr>"

definition run_shift :: "py_error + image_run" where
  "run_shift =
     generate_ddpcr_image_new rng_shift 100 300 (1532, 1024) 3 (1 / 10) (5 / 100) (1 / 10)"

text \<open>
  The scenario of a canvas that is too small: 500 droplets of 300 pixels (the mean
  diameter is \<open>30000 / 37\<close> micrometres) on a canvas of 200 by 200 pixels.
\<close>

definition run_small_canvas :: "py_error + image_run" where
  "run_small_canvas =
     generate_ddpcr_image_new rng_shift (30000 / 37) 5 (200, 200) 500
       (1 / 10) (5 / 100) (1 / 10)"

definition run_small_canvas_old :: "py_error + real list \<times> nat list \<times> placed list" where
  "run_small_canvas_old = generate_ddpcr_image rng_shift (30000 / 37) 5 (200, 200) 500"

text \<open>A request for no droplets at all, with the other arguments of the example call.\<close>

definition run_empty :: "py_error + image_run" where
  "run_empty =
     generate_ddpcr_image_new rng_shift 150 300 (1532, 1024) 0 (1 / 10) (5 / 100) (1 / 10)"

text \<open>
  A generator whose normal variates are all 3 (three standard deviations above the
  mean), and one whose normal variates are all 1.
\<close>

definition rng_wide :: rng_draws where
  "rng_wide =
     \<lparr>normals = (\<lambda>i. 3),
      poissons = (\<lambda>i. 0),
      randoms = (\<lambda>i. 9 / 10),
      uniforms = (\<lambda>idx a. (1 / 2, 1 / 2))\<rparr>"

definition run_wide :: "py_error + real list \<times> nat list \<times> placed list" where
  "run_wide = generate_ddpcr_image rng_wide 100 5 (1532, 1024) 1"

definition rng_big :: rng_draws where
  "rng_big =
     \<lparr>normals = (\<lambda>i. 1),
      poissons = (\<lambda>i. 0),
      randoms = (\<lambda>i. 9 / 10),
      uniforms = (\<lambda>idx a. (1 / 2, 1 / 2))\<rparr>"

definition run_big :: "py_error + image_run" where
  "run_big =
     generate_ddpcr_image_new rng_big 100 300 (1532, 1024) 1 (1 / 10) (5 / 100) (1 / 10)"

text \<open>
  A generator for three droplets of the mean diameter of which droplet 1 holds one
  molecule and is read as positive, and an interval function that returns the observed
  number of positive droplets minus and plus one, kept inside \<open>[0, n]\<close>.
\<close>

definition rng_pos :: rng_draws where
  "rng_pos =
     \<lparr>normals = (\<lambda>i. 0),
      poissons = (\<lambda>i. if i = 1 then 1 else 0),
      randoms = (\<lambda>i. 9 / 10),
      uniforms = (\<lambda>idx a. (1 / 2, 1 / 2))\<rparr>"

definition binom_pm1 :: "real \<Rightarrow> nat \<Rightarrow> real \<Rightarrow> real \<times> real" where
  "binom_pm1 confidence n p =
     (max 0 (of_nat n * p - 1), min (of_nat n) (of_nat n * p + 1))"

section \<open>Properties of \<open>DigitalPCRSimulator\<close>\<close>

lemma reachable_lambda:
  "reachable s \<Longrightarrow> distribution s \<noteq> None \<Longrightarrow> lambda_value s \<noteq> None"
proof (induction rule: reachable.induct)
  case (r_init n)
  then show ?case by (simp add: init_def)
next
  case (r_copies s total_copies)
  then show ?case by (auto simp: set_lambda_from_copies_def Let_def split: if_splits)
next
  case (r_conc s concentration droplet_volume)
  then show ?case by (simp add: set_lambda_from_concentration_def Let_def)
next
  case (r_sim s draw)
  then show ?case
    by (auto simp: simulate_distribution_def split: option.splits sum.splits)
next
  case (r_ratio s)
  then show ?case
    by (auto simp: get_empty_ratio_def Let_def split: option.splits)
qed

lemma poisson_lam_max_ge: "1 \<le> poisson_lam_max"
proof -
  have "sqrt (2 ^ 63 - 1) \<le> (2 ^ 32 :: real)"
    by (rule real_le_lsqrt) simp_all
  then show ?thesis
    by (simp add: poisson_lam_max_def)
qed

lemma poisson_accepts: "0 \<le> lam \<Longrightarrow> lam \<le> 1 \<Longrightarrow> \<not> poisson_rejects lam"
  using poisson_lam_max_ge by (simp add: poisson_rejects_def)

text \<open>
  C10.  On a simulator whose \<open>n_droplets\<close> is 0, \<open>set_lambda_from_copies\<close> raises
  \<open>ZeroDivisionError\<close> for every value of \<open>total_copies\<close> (and leaves the object as it
  was).
\<close>

theorem set_lambda_from_copies_zero_droplets:
  "n_droplets self = 0 \<Longrightarrow>
   set_lambda_from_copies self total_copies = (Inl ZeroDivisionError, self)"
  by (simp add: set_lambda_from_copies_def)

theorem set_lambda_from_copies_zero_droplets_witness:
  "n_droplets (init 0) = 0 \<and>
   set_lambda_from_copies (init 0) 5000 = (Inl ZeroDivisionError, init 0)"
  using set_lambda_from_copies_zero_droplets [of "init 0" 5000]
  by (simp add: init_def)

lemma reachable_sim_half: "reachable sim_half"
  unfolding sim_half_def by (intro r_copies r_init)

text \<open>
  C9.  On every object a program can hold, with the parameters the caller is to supply:
  \<open>simulate_distribution\<close> raises if and only if no lambda value has been set, and
  \<open>get_empty_ratio\<close> raises if and only if no distribution has been simulated; the error
  is the method's own and the object is left as it was; once a lambda value is set,
  \<open>simulate_distribution\<close> returns one count per droplet and stores them, and after
  that \<open>get_empty_ratio\<close> returns.
\<close>

theorem simulator_configuration_errors:
  assumes "reachable s" and "valid_simulator s"
  shows "(raises (simulate_distribution draw s) \<longleftrightarrow> lambda_value s = None) \<and>
         (raises (get_empty_ratio s) \<longleftrightarrow> distribution s = None) \<and>
         (raises (simulate_distribution draw s) \<longrightarrow>
            simulate_distribution draw s = (Inl LambdaNotSet, s)) \<and>
         (raises (get_empty_ratio s) \<longrightarrow> get_empty_ratio s = (Inl NotSimulated, s)) \<and>
         (lambda_value s \<noteq> None \<longrightarrow>
            (\<exists>d. simulate_distribution draw s = (Inr d, s\<lparr>distribution := Some d\<rparr>) \<and>
                 length d = nat (n_droplets s) \<and>
                 (\<exists>ratios. get_empty_ratio (s\<lparr>distribution := Some d\<rparr>) =
                    (Inr ratios, s\<lparr>distribution := Some d\<rparr>))))"
proof -
  from assms(2) have n: "\<not> n_droplets s < 0"
    and lam: "\<And>lam. lambda_value s = Some lam \<Longrightarrow> \<not> poisson_rejects lam"
    by (simp_all add: valid_simulator_def)
  have a: "raises (simulate_distribution draw s) \<longleftrightarrow> lambda_value s = None"
    using n lam
    by (auto simp: simulate_distribution_def np_random_poisson_def raises_def
          split: option.splits)
  have b: "raises (get_empty_ratio s) \<longleftrightarrow> distribution s = None"
    using reachable_lambda [OF assms(1)]
    by (auto simp: get_empty_ratio_def raises_def Let_def split: option.splits)
  have c: "raises (simulate_distribution draw s) \<longrightarrow>
            simulate_distribution draw s = (Inl LambdaNotSet, s)"
    using n lam
    by (auto simp: simulate_distribution_def np_random_poisson_def raises_def
          split: option.splits)
  have d: "raises (get_empty_ratio s) \<longrightarrow> get_empty_ratio s = (Inl NotSimulated, s)"
    using reachable_lambda [OF assms(1)]
    by (auto simp: get_empty_ratio_def raises_def Let_def split: option.splits)
  have e: "lambda_value s \<noteq> None \<longrightarrow>
            (\<exists>d. simulate_distribution draw s = (Inr d, s\<lparr>distribution := Some d\<rparr>) \<and>
                 length d = nat (n_droplets s) \<and>
                 (\<exists>ratios. get_empty_ratio (s\<lparr>distribution := Some d\<rparr>) =
                    (Inr ratios, s\<lparr>distribution := Some d\<rparr>)))"
    using n lam
    by (auto simp: simulate_distribution_def np_random_poisson_def get_empty_ratio_def
          Let_def)
  from a b c d e show ?thesis by blast
qed

theorem simulator_configuration_errors_witness:
  "reachable sim_half \<and> valid_simulator sim_half \<and>
   lambda_value sim_half = Some (1 / 2) \<and> distribution sim_half = None \<and>
   \<not> raises (simulate_distribution no_copies sim_half) \<and>
   raises (get_empty_ratio sim_half) \<and>
   get_empty_ratio sim_half = (Inl NotSimulated, sim_half) \<and>
   reachable (init 4) \<and> valid_simulator (init 4) \<and>
   simulate_distribution no_copies (init 4) = (Inl LambdaNotSet, init 4)"
proof -
  have l: "lambda_value sim_half = Some (1 / 2)" "n_droplets sim_half = 4"
    "distribution sim_half = None"
    by (simp_all add: sim_half_def set_lambda_from_copies_def init_def Let_def)
  have v: "valid_simulator sim_half"
    using poisson_accepts [of "1 / 2"] by (simp add: valid_simulator_def l)
  have i: "lambda_value (init 4) = None" "valid_simulator (init 4)"
    by (simp_all add: init_def valid_simulator_def)
  from simulator_configuration_errors [OF reachable_sim_half v, of no_copies]
       simulator_configuration_errors [OF r_init i(2), of no_copies] l i
  show ?thesis
    by (simp add: reachable_sim_half v r_init)
qed

section \<open>Lemmas on volumes, clipping and the samplers\<close>

lemma sphere_volume_pos: "0 < d \<Longrightarrow> 0 < sphere_volume_ul d"
  by (simp add: sphere_volume_ul_def)

lemma sphere_volume_nonneg: "0 \<le> d \<Longrightarrow> 0 \<le> sphere_volume_ul d"
  by (simp add: sphere_volume_ul_def)

lemma sphere_volume_zero_iff: "sphere_volume_ul d = 0 \<longleftrightarrow> d = 0"
  by (simp add: sphere_volume_ul_def)

lemma sphere_volume_mono: "0 \<le> d \<Longrightarrow> d \<le> e \<Longrightarrow> sphere_volume_ul d \<le> sphere_volume_ul e"
proof -
  assume "0 \<le> d" "d \<le> e"
  then have "(d / 2) ^ 3 \<le> (e / 2) ^ 3"
    by (intro power_mono) simp_all
  then show ?thesis
    by (simp add: sphere_volume_ul_def)
qed

lemma sphere_volume_le_cube: "0 \<le> d \<Longrightarrow> sphere_volume_ul d \<le> d ^ 3 / 1000000000"
proof -
  assume d: "0 \<le> d"
  have "pi \<le> 6"
    using pi_less_4 by simp
  then have "pi * d ^ 3 \<le> 6 * d ^ 3"
    using d by (intro mult_right_mono) simp_all
  then show ?thesis
    by (simp add: sphere_volume_ul_def power_divide)
qed

lemma poisson_lam_max_big: "10 ^ 18 \<le> poisson_lam_max"
proof -
  have "sqrt (2 ^ 63 - 1) \<le> (2 ^ 32 :: real)"
    by (rule real_le_lsqrt) simp_all
  then show ?thesis
    by (simp add: poisson_lam_max_def)
qed

lemma poisson_accepts_rate:
  assumes "0 \<le> c" "0 \<le> d" "c * d ^ 3 \<le> 10 ^ 27"
  shows "\<not> poisson_rejects (c * sphere_volume_ul d)"
proof -
  have "c * sphere_volume_ul d \<le> c * (d ^ 3 / 1000000000)"
    using assms sphere_volume_le_cube by (intro mult_left_mono) simp_all
  also have "\<dots> \<le> 10 ^ 18"
    using assms(3) by simp
  finally have "c * sphere_volume_ul d \<le> poisson_lam_max"
    using poisson_lam_max_big by simp
  moreover have "0 \<le> c * sphere_volume_ul d"
    using assms sphere_volume_nonneg by simp
  ultimately show ?thesis
    by (simp add: poisson_rejects_def)
qed

lemma poisson_accepts_smaller:
  assumes "0 \<le> c" "0 \<le> d" "d \<le> e" "\<not> poisson_rejects (c * sphere_volume_ul e)"
  shows "\<not> poisson_rejects (c * sphere_volume_ul d)"
proof -
  have "c * sphere_volume_ul d \<le> c * sphere_volume_ul e"
    using assms sphere_volume_mono by (intro mult_left_mono) simp_all
  moreover have "0 \<le> c * sphere_volume_ul d"
    using assms sphere_volume_nonneg by simp
  ultimately show ?thesis
    using assms(4) by (simp add: poisson_rejects_def)
qed

lemma np_clip_band:
  assumes "0 \<le> m"
  shows "m * (8 / 10) \<le> np_clip d (m * (8 / 10)) (m * (12 / 10))"
    and "np_clip d (m * (8 / 10)) (m * (12 / 10)) \<le> m * (12 / 10)"
proof -
  have "m * (8 / 10) \<le> m * (12 / 10)"
    using assms by (intro mult_left_mono) simp_all
  then show "m * (8 / 10) \<le> np_clip d (m * (8 / 10)) (m * (12 / 10))"
    by (simp add: np_clip_def)
  show "np_clip d (m * (8 / 10)) (m * (12 / 10)) \<le> m * (12 / 10)"
    by (simp add: np_clip_def)
qed

lemma py_int_nonneg: "0 \<le> x \<Longrightarrow> 0 \<le> py_int x"
  by (simp add: py_int_def)

lemma rng_poisson_length:
  "rng_poisson draw lambdas = Inr counts \<Longrightarrow> length counts = length lambdas"
  by (auto simp: rng_poisson_def split: if_splits)

section \<open>What \<open>calculate_ddpcr_statistics\<close> returns\<close>

lemma statistics_of_fields:
  "trace_diameters (statistics_of random bi tv avg fnr fpr cl diameters counts) = diameters"
  "trace_molecular_counts (statistics_of random bi tv avg fnr fpr cl diameters counts) = counts"
  "trace_false_negative_rates (statistics_of random bi tv avg fnr fpr cl diameters counts) =
     map (\<lambda>d. fnr * (d / avg)) diameters"
  "trace_false_positive_rates (statistics_of random bi tv avg fnr fpr cl diameters counts) =
     map (\<lambda>d. fpr * (d / avg)) diameters"
  "stat_total_drops (statistics_of random bi tv avg fnr fpr cl diameters counts) = length counts"
  "stat_lod_copies_per_ul (statistics_of random bi tv avg fnr fpr cl diameters counts) =
     lod_of fpr (sphere_volume_ul avg)"
  "stat_loq_copies_per_ul (statistics_of random bi tv avg fnr fpr cl diameters counts) =
     loq_of fpr (sphere_volume_ul avg)"
  by (simp_all add: statistics_of_def Let_def o_def)

lemma statistics_of_counts:
  "stat_tp_count (statistics_of random bi tv avg fnr fpr cl diameters counts) =
     true_positive (tally_loop random counts (map (\<lambda>d. fnr * (d / avg)) diameters)
        (map (\<lambda>d. fpr * (d / avg)) diameters))"
  "stat_fp_count (statistics_of random bi tv avg fnr fpr cl diameters counts) =
     false_positive (tally_loop random counts (map (\<lambda>d. fnr * (d / avg)) diameters)
        (map (\<lambda>d. fpr * (d / avg)) diameters))"
  "stat_fp_rate (statistics_of random bi tv avg fnr fpr cl diameters counts) =
     (if length counts > 0
      then of_nat (false_positive (tally_loop random counts
             (map (\<lambda>d. fnr * (d / avg)) diameters)
             (map (\<lambda>d. fpr * (d / avg)) diameters))) / of_nat (length counts)
      else 0)"
  by (simp_all add: statistics_of_def Let_def o_def)

lemma calc_Inr:
  assumes "calculate_ddpcr_statistics rng bi tv avg conc fnr fpr var cl = Inr s"
  shows "sphere_volume_ul avg \<noteq> 0"
    and "s = statistics_of (randoms rng) bi tv avg fnr fpr cl
               (trace_diameters s) (trace_molecular_counts s)"
    and "trace_diameters s =
          map (\<lambda>i. np_clip (avg + avg * var * normals rng i) (avg * (8 / 10)) (avg * (12 / 10)))
            [0..<nat (py_int (tv / sphere_volume_ul avg))]"
    and "length (trace_molecular_counts s) = length (trace_diameters s)"
  using assms
  by (auto simp: calculate_ddpcr_statistics_def Let_def py_truediv_def rng_normal_def
        statistics_of_fields o_def split: if_splits sum.splits dest!: rng_poisson_length)

lemma calc_returns:
  assumes "0 \<le> tv" "0 < avg" "0 \<le> conc" "0 \<le> var"
    and "\<not> poisson_rejects (conc * sphere_volume_ul (avg * (12 / 10)))"
  shows "\<exists>s. calculate_ddpcr_statistics rng bi tv avg conc fnr fpr var cl = Inr s"
proof -
  have v: "sphere_volume_ul avg \<noteq> 0"
    using assms by (simp add: sphere_volume_zero_iff)
  have "0 < sphere_volume_ul avg"
    using assms sphere_volume_pos by simp
  then have n: "\<not> py_int (tv / sphere_volume_ul avg) < 0"
    using py_int_nonneg [of "tv / sphere_volume_ul avg"] assms by simp
  have sc: "\<not> avg * var < 0"
    using assms by (simp add: mult_less_0_iff)
  have lam: "\<not> poisson_rejects
      (conc * sphere_volume_ul (np_clip d (avg * (8 / 10)) (avg * (12 / 10))))" for d
  proof -
    have a: "0 \<le> avg" "0 \<le> avg * (8 / 10)" using assms by simp_all
    from np_clip_band [OF a(1), of d] a(2)
    have "0 \<le> np_clip d (avg * (8 / 10)) (avg * (12 / 10))"
      "np_clip d (avg * (8 / 10)) (avg * (12 / 10)) \<le> avg * (12 / 10)"
      by simp_all
    from poisson_accepts_smaller [OF assms(3) this assms(5)] show ?thesis .
  qed
  show ?thesis
    using v n sc lam
    by (simp add: calculate_ddpcr_statistics_def Let_def py_truediv_def rng_normal_def
          rng_poisson_def list_ex_iff o_def)
qed

section \<open>Lemmas on the tallies and the limits\<close>

lemma tally_step_false_positive:
  "\<not> random i < fps ! i \<Longrightarrow>
   false_positive (tally_step random counts fns fps t i) = false_positive t"
  by (simp add: tally_step_def)

lemma tally_foldl_false_positive:
  "n \<le> length counts \<Longrightarrow> \<forall>i<length counts. \<not> random i < fps ! i \<Longrightarrow>
   false_positive (foldl (tally_step random counts fns fps) t [0..<n]) = false_positive t"
  by (induction n) (simp_all add: tally_step_false_positive)

lemma tally_loop_false_positive:
  "\<forall>i<length counts. \<not> random i < fps ! i \<Longrightarrow>
   false_positive (tally_loop random counts fns fps) = 0"
  by (simp add: tally_loop_def tally_foldl_false_positive)

lemma lod_of_zero_rate: "v \<noteq> 0 \<Longrightarrow> lod_of 0 v = Fin 0"
  by (simp add: lod_of_def blank_lambda_def)

lemma lod_of_valid:
  assumes "0 \<le> fpr" "fpr < 1" "v \<noteq> 0"
  shows "lod_of fpr v = Fin ((- ln (1 - fpr) + 3 * sqrt (- ln (1 - fpr))) / v)"
proof -
  have "ln (1 - fpr) \<le> 0" using assms by simp
  then show ?thesis using assms by (simp add: lod_of_def blank_lambda_def)
qed

section \<open>Lemmas on the placement loop\<close>

lemma np_hypot_sym: "np_hypot (a - b) (c - d) = np_hypot (b - a) (d - c)"
  by (simp add: np_hypot_def power2_commute)

lemma far_apart_sym: "far_apart d e = far_apart e d"
  by (auto simp: far_apart_def np_hypot_sym add.commute split: prod.splits)

lemma np_hypot_less_iff: "0 \<le> c \<Longrightarrow> np_hypot a b < c \<longleftrightarrow> a\<^sup>2 + b\<^sup>2 < c\<^sup>2"
proof -
  assume c: "0 \<le> c"
  have "np_hypot a b < c \<longleftrightarrow> sqrt (a\<^sup>2 + b\<^sup>2) < sqrt (c\<^sup>2)"
    using c by (simp add: np_hypot_def)
  then show ?thesis by (simp only: real_sqrt_less_iff)
qed

lemma no_collision_far:
  "\<not> collision x y radius droplets \<Longrightarrow> e \<in> set droplets \<Longrightarrow> far_apart (x, y, radius, c) e"
  by (auto simp: collision_def list_ex_iff far_apart_def not_less split: prod.splits)

lemma separated_append:
  assumes "separated droplets" "\<forall>e\<in>set droplets. far_apart d e"
  shows "separated (droplets @ [d])"
  unfolding separated_def
proof (intro allI impI)
  fix i j
  assume i: "i < length (droplets @ [d])" and j: "j < length (droplets @ [d])" and ne: "i \<noteq> j"
  consider "i < length droplets" "j < length droplets"
    | "i < length droplets" "j = length droplets"
    | "i = length droplets" "j < length droplets"
    using i j ne by (auto simp: less_Suc_eq)
  then show "far_apart ((droplets @ [d]) ! i) ((droplets @ [d]) ! j)"
  proof cases
    case 1
    with assms(1) ne show ?thesis by (simp add: separated_def nth_append)
  next
    case 2
    with assms(2) show ?thesis using far_apart_sym [of "droplets ! i" d]
      by (simp add: nth_append)
  next
    case 3
    with assms(2) show ?thesis by (simp add: nth_append)
  qed
qed

lemma inside_canvas_append:
  "inside_canvas w h (droplets @ [d]) \<longleftrightarrow> inside_canvas w h droplets \<and> inside_canvas w h [d]"
  by (simp add: inside_canvas_def)

lemma rng_uniform_Inr:
  "rng_uniform low high u = Inr x \<longleftrightarrow> low \<le> high \<and> x = low + (high - low) * u"
  by (auto simp: rng_uniform_def)

lemma rng_uniform_range:
  assumes "rng_uniform low high u = Inr x" "unit_interval u"
  shows "low \<le> x \<and> x \<le> high"
proof -
  from assms have lh: "low \<le> high" and x: "x = low + (high - low) * u"
    by (simp_all add: rng_uniform_Inr)
  from assms(2) have u: "0 \<le> u" "u \<le> 1" by (simp_all add: unit_interval_def)
  have "0 \<le> (high - low) * u" using lh u by simp
  moreover have "(high - low) * u \<le> (high - low) * 1"
    using lh u by (intro mult_left_mono) simp_all
  ultimately show ?thesis using x by simp
qed

lemma place_attempts_Some:
  assumes "place_attempts cand w h radius droplets a k = Inr (Some (x, y))"
    and "\<forall>a. unit_interval (fst (cand a)) \<and> unit_interval (snd (cand a))"
  shows "\<not> collision x y radius droplets \<and>
         radius \<le> x \<and> x \<le> w - radius \<and> radius \<le> y \<and> y \<le> h - radius"
  using assms(1)
proof (induction k arbitrary: a)
  case 0
  then show ?case by simp
next
  case (Suc k)
  from Suc.prems obtain x' y' where
    x': "rng_uniform radius (w - radius) (fst (cand a)) = Inr x'" and
    y': "rng_uniform radius (h - radius) (snd (cand a)) = Inr y'"
    by (auto split: sum.splits)
  show ?case
  proof (cases "collision x' y' radius droplets")
    case True
    with Suc.prems x' y' have "place_attempts cand w h radius droplets (Suc a) k = Inr (Some (x, y))"
      by simp
    then show ?thesis by (rule Suc.IH)
  next
    case False
    with Suc.prems x' y' have "x = x'" "y = y'" by simp_all
    with False rng_uniform_range [OF x'] rng_uniform_range [OF y'] assms(2)
    show ?thesis by simp
  qed
qed

lemma place_attempts_no_error:
  "radius \<le> w - radius \<Longrightarrow> radius \<le> h - radius \<Longrightarrow>
   \<exists>r. place_attempts cand w h radius droplets a k = Inr r"
  by (induction k arbitrary: a) (simp_all add: rng_uniform_def)

lemma place_attempts_all_collide:
  assumes "radius \<le> w - radius" "radius \<le> h - radius"
  shows "\<forall>a'. a \<le> a' \<and> a' < a + k \<longrightarrow>
           collision (fst (candidate cand w h radius a')) (snd (candidate cand w h radius a'))
             radius droplets \<Longrightarrow>
         place_attempts cand w h radius droplets a k = Inr None"
proof (induction k arbitrary: a)
  case 0
  then show ?case by simp
next
  case (Suc k)
  from Suc.prems have c: "collision (fst (candidate cand w h radius a))
      (snd (candidate cand w h radius a)) radius droplets"
    by simp
  from Suc.prems have "place_attempts cand w h radius droplets (Suc a) k = Inr None"
    by (intro Suc.IH) simp
  with c assms show ?case
    by (simp add: rng_uniform_def candidate_def)
qed

lemma place_loop_invariant:
  assumes "\<forall>idx a. unit_interval (fst (cand idx a)) \<and> unit_interval (snd (cand idx a))"
  shows "place_loop cand w h xs droplets = Inr result \<Longrightarrow>
         separated droplets \<Longrightarrow> inside_canvas w h droplets \<Longrightarrow>
         separated result \<and> inside_canvas w h result \<and>
         length result \<le> length droplets + length xs"
proof (induction xs arbitrary: droplets)
  case Nil
  then show ?case by simp
next
  case (Cons t xs)
  obtain idx diameter c where t: "t = (idx, diameter, c)"
    by (cases t) auto
  from Cons.prems(1) t obtain r where
    r: "place_attempts (cand idx) w h (diameter / 2) droplets 0 max_attempts = Inr r"
    by (auto simp: Let_def split: sum.splits)
  show ?case
  proof (cases r)
    case None
    with Cons.prems(1) t r have "place_loop cand w h xs droplets = Inr result"
      by (simp add: Let_def)
    from Cons.IH [OF this Cons.prems(2,3)] show ?thesis by simp
  next
    case (Some p)
    obtain x y where p: "p = (x, y)" by (cases p) auto
    from Cons.prems(1) t r Some p
    have rec: "place_loop cand w h xs (droplets @ [(x, y, diameter / 2, c)]) = Inr result"
      by (simp add: Let_def)
    from r Some p assms
    have acc: "\<not> collision x y (diameter / 2) droplets \<and>
         diameter / 2 \<le> x \<and> x \<le> w - diameter / 2 \<and> diameter / 2 \<le> y \<and> y \<le> h - diameter / 2"
      by (intro place_attempts_Some [where cand = "cand idx" and a = 0 and k = max_attempts]) simp_all
    then have "\<forall>e\<in>set droplets. far_apart (x, y, diameter / 2, c) e"
      using no_collision_far by blast
    with Cons.prems(2) have s: "separated (droplets @ [(x, y, diameter / 2, c)])"
      by (rule separated_append)
    from acc Cons.prems(3) have i: "inside_canvas w h (droplets @ [(x, y, diameter / 2, c)])"
      by (simp add: inside_canvas_def)
    from Cons.IH [OF rec s i] show ?thesis by simp
  qed
qed

lemma place_loop_no_error:
  "\<forall>t\<in>set xs. fst (snd t) \<le> w \<and> fst (snd t) \<le> h \<Longrightarrow>
   \<exists>result. place_loop cand w h xs droplets = Inr result"
proof (induction xs arbitrary: droplets)
  case Nil
  then show ?case by simp
next
  case (Cons t xs)
  obtain idx diameter c where t: "t = (idx, diameter, c)"
    by (cases t) auto
  with Cons.prems have "diameter / 2 \<le> w - diameter / 2" "diameter / 2 \<le> h - diameter / 2"
    by (simp_all add: field_simps)
  from place_attempts_no_error [OF this] obtain r where
    r: "place_attempts (cand idx) w h (diameter / 2) droplets 0 max_attempts = Inr r"
    by blast
  from Cons.prems have rest: "\<forall>t\<in>set xs. fst (snd t) \<le> w \<and> fst (snd t) \<le> h"
    by simp
  show ?case
  proof (cases r)
    case None
    with t r Cons.IH [OF rest, of droplets] show ?thesis by (simp add: Let_def)
  next
    case (Some p)
    obtain x y where p: "p = (x, y)" by (cases p) auto
    with Some t r Cons.IH [OF rest, of "droplets @ [(x, y, diameter / 2, c)]"]
    show ?thesis by (simp add: Let_def)
  qed
qed

section \<open>What the image generators return\<close>

lemma gen_new_Inr:
  assumes "generate_ddpcr_image_new rng avg conc image_size n fnr fpr var = Inr r"
  shows "run_diameters r =
          map (\<lambda>i. np_clip (avg * pixels_per_um + avg * pixels_per_um * var * normals rng i)
                     (avg * pixels_per_um * (8 / 10)) (avg * pixels_per_um * (12 / 10)))
            [0..<nat n]"
    and "run_diameters_um r = map (\<lambda>d. d / pixels_per_um) (run_diameters r)"
    and "length (run_molecular_counts r) = length (run_diameters r)"
    and "run_false_negative_rates r = map (\<lambda>d. fnr * (d / avg)) (run_diameters_um r)"
    and "run_false_positive_rates r = map (\<lambda>d. fpr * (d / avg)) (run_diameters_um r)"
    and "run_droplet_states r =
          map (droplet_state_at (randoms rng) (run_molecular_counts r)
                 (run_false_negative_rates r) (run_false_positive_rates r))
            [0..<length (run_molecular_counts r)]"
    and "place_droplets (uniforms rng) image_size (run_diameters r) (run_molecular_counts r) =
          Inr (run_droplets r)"
    and "data_loop (run_droplet_states r) (zip [0..<length (run_droplets r)] (run_droplets r)) =
          Inr (run_droplet_data r)"
    and "summarize (run_droplet_data r) = Inr (run_summary r)"
  using assms
  by (auto simp: generate_ddpcr_image_new_def Let_def rng_normal_def
        rng_poisson_def o_def split: if_splits sum.splits)

lemma gen_Inr:
  assumes "generate_ddpcr_image rng avg conc image_size n = Inr (diameters, counts, droplets)"
  shows "diameters =
          map (\<lambda>i. max (avg * pixels_per_um + avg * pixels_per_um * (1 / 10) * normals rng i) 1)
            [0..<nat n]"
    and "length counts = length diameters"
    and "place_droplets (uniforms rng) image_size diameters counts = Inr droplets"
  using assms
  by (auto simp: generate_ddpcr_image_def Let_def rng_normal_def
        rng_poisson_def o_def split: if_splits sum.splits)

section \<open>Lemmas on the rows of the workbook\<close>

lemma place_attempts_first:
  assumes "0 < k" "radius \<le> w - radius" "radius \<le> h - radius"
    and "\<not> collision (fst (candidate cand w h radius a)) (snd (candidate cand w h radius a))
            radius droplets"
  shows "place_attempts cand w h radius droplets a k = Inr (Some (candidate cand w h radius a))"
proof -
  from assms(1) obtain k' where "k = Suc k'" by (cases k) auto
  with assms(2-) show ?thesis
    by (simp add: rng_uniform_def candidate_def)
qed

lemma upt3: "[0..<3] = [0, 1, 2]"
  by (simp add: upt_rec)

lemma upt2: "[0..<2] = [0, 1]"
  by (simp add: upt_rec)

lemma data_loop_rows:
  "data_loop states ixs = Inr rows \<Longrightarrow> row \<in> set rows \<Longrightarrow>
   \<exists>idx x y radius c. (idx, (x, y, radius, c)) \<in> set ixs \<and> idx < length states \<and>
     row = \<lparr>row_diameter_um = (radius * 2) / pixels_per_um, row_x = x, row_y = y,
            row_count = c, row_status = display_status_of (states ! idx) c\<rparr>"
proof (induction ixs arbitrary: rows)
  case Nil
  then show ?case by simp
next
  case (Cons t ixs)
  obtain idx x y radius c where t: "t = (idx, (x, y, radius, c))"
    by (cases t) auto
  from Cons.prems(1) t obtain rest where
    i: "idx < length states" and rest: "data_loop states ixs = Inr rest" and
    rows: "rows = \<lparr>row_diameter_um = (radius * 2) / pixels_per_um, row_x = x, row_y = y,
            row_count = c, row_status = display_status_of (states ! idx) c\<rparr> # rest"
    by (auto simp: py_index_def split: if_splits sum.splits)
  from Cons.prems(2) rows consider
    "row = \<lparr>row_diameter_um = (radius * 2) / pixels_per_um, row_x = x, row_y = y,
            row_count = c, row_status = display_status_of (states ! idx) c\<rparr>"
    | "row \<in> set rest" by auto
  then show ?case
  proof cases
    case 1
    with t i show ?thesis by auto
  next
    case 2
    have "set ixs \<subseteq> set (t # ixs)" by auto
    with Cons.IH [OF rest 2] show ?thesis by blast
  qed
qed

lemma place_loop_members:
  "place_loop cand w h xs droplets = Inr result \<Longrightarrow> e \<in> set result \<Longrightarrow>
   e \<in> set droplets \<or>
   (\<exists>idx diameter c x y. (idx, diameter, c) \<in> set xs \<and> e = (x, y, diameter / 2, c))"
proof (induction xs arbitrary: droplets)
  case Nil
  then show ?case by simp
next
  case (Cons t xs)
  obtain idx diameter c where t: "t = (idx, diameter, c)"
    by (cases t) auto
  from Cons.prems(1) t obtain r where
    r: "place_attempts (cand idx) w h (diameter / 2) droplets 0 max_attempts = Inr r"
    by (auto simp: Let_def split: sum.splits)
  show ?case
  proof (cases r)
    case None
    with Cons.prems(1) t r have "place_loop cand w h xs droplets = Inr result"
      by (simp add: Let_def)
    from Cons.IH [OF this Cons.prems(2)] show ?thesis by auto
  next
    case (Some p)
    obtain x y where p: "p = (x, y)" by (cases p) auto
    from Cons.prems(1) t r Some p
    have "place_loop cand w h xs (droplets @ [(x, y, diameter / 2, c)]) = Inr result"
      by (simp add: Let_def)
    from Cons.IH [OF this Cons.prems(2)] t show ?thesis by auto
  qed
qed

section \<open>Concrete runs of the image generators\<close>

lemma rng_shift_simps:
  "normals rng_shift i = 0"
  "poissons rng_shift i = (if i = 1 then 1 else 0)"
  "randoms rng_shift i = (if i = 1 then 0 else 9 / 10)"
  by (simp_all add: rng_shift_def)

lemma run_shift_place:
  "place_droplets (uniforms rng_shift) (1532, 1024) [37, 37, 37] [0, Suc 0, 0] =
     Inr [(766, 512, 37 / 2, 0), (37 / 2, 37 / 2, 37 / 2, 0)]"
proof -
  have a0: "place_attempts (uniforms rng_shift 0) 1532 1024 (37 / 2) [] 0 max_attempts =
      Inr (Some (766, 512))"
    by (subst place_attempts_first)
       (simp_all add: max_attempts_def collision_def candidate_def rng_shift_def)
  have a1: "place_attempts (uniforms rng_shift (Suc 0)) 1532 1024 (37 / 2)
      [(766, 512, 37 / 2, 0)] 0 max_attempts = Inr None"
    by (rule place_attempts_all_collide)
       (simp_all add: collision_def candidate_def rng_shift_def np_hypot_def)
  have a2: "place_attempts (uniforms rng_shift (Suc (Suc 0))) 1532 1024 (37 / 2)
      [(766, 512, 37 / 2, 0)] 0 max_attempts = Inr (Some (37 / 2, 37 / 2))"
    by (subst place_attempts_first)
       (simp_all add: max_attempts_def collision_def candidate_def rng_shift_def
          np_hypot_less_iff power2_eq_square)
  show ?thesis
    by (simp add: place_droplets_def upt3 Let_def a0 a1 a2)
qed

lemma run_shift_general:
  assumes "fpr \<le> 9 / 10"
  shows "generate_ddpcr_image_new rng_shift 100 300 (1532, 1024) 3 (1 / 10) fpr (1 / 10) =
    Inr \<lparr>run_diameters = [37, 37, 37], run_diameters_um = [100, 100, 100],
         run_molecular_counts = [0, 1, 0],
         run_false_negative_rates = [1 / 10, 1 / 10, 1 / 10],
         run_false_positive_rates = [fpr, fpr, fpr],
         run_droplet_states =
           [\<lparr>st_count = 0, is_false_negative = False, is_false_positive = False\<rparr>,
            \<lparr>st_count = 1, is_false_negative = True, is_false_positive = False\<rparr>,
            \<lparr>st_count = 0, is_false_negative = False, is_false_positive = False\<rparr>],
         run_droplets = [(766, 512, 37 / 2, 0), (37 / 2, 37 / 2, 37 / 2, 0)],
         run_droplet_data =
           [\<lparr>row_diameter_um = 100, row_x = 766, row_y = 512, row_count = 0,
               row_status = TrueNegative\<rparr>,
            \<lparr>row_diameter_um = 100, row_x = 37 / 2, row_y = 37 / 2, row_count = 0,
               row_status = FalseNegative\<rparr>],
         run_summary =
           \<lparr>sum_total_drops = 2, sum_true_positive = 0, sum_false_positive = 0,
              sum_true_negative = 1, sum_false_negative = 1, sum_false_positive_rate = 0,
              sum_false_negative_rate = 1 / 2, sum_mean_diameter = Fin 100,
              sum_std_diameter = Fin 0, sum_cv_diameter = Fin 0\<rparr>\<rparr>"
proof -
  have p: "\<not> poisson_rejects (300 * sphere_volume_ul 100)"
    by (rule poisson_accepts_rate) simp_all
  show ?thesis
    using assms p
    by (simp add: generate_ddpcr_image_new_def Let_def rng_normal_def
       rng_poisson_def rng_shift_simps pixels_per_um_def upt3 upt2 np_clip_def
       sphere_volume_zero_iff droplet_state_at_def run_shift_place py_index_def
       display_status_of_def summarize_def count_status_def py_truediv_def np_mean_def
       np_std_def)
qed

text \<open>
  C1 fails on the code.  In this run of \<open>droplets_simulation_new.py\<close> droplet 1 (one
  molecule, read as negative) finds no free centre and is dropped.  Droplet 2 holds no
  molecule and its own state carries neither flag, so it is a true negative; it is the
  second placed droplet, is given \<open>droplet_states[1]\<close>, the state of the dropped droplet,
  and is recorded as a false negative with a count of 0.
\<close>

theorem dropped_droplet_shifts_states:
  "map_option run_molecular_counts (result_of run_shift) = Some [0, 1, 0] \<and>
   map_option (map is_false_negative \<circ> run_droplet_states) (result_of run_shift) =
     Some [False, True, False] \<and>
   map_option (map is_false_positive \<circ> run_droplet_states) (result_of run_shift) =
     Some [False, False, False] \<and>
   map_option run_droplets (result_of run_shift) =
     Some [(766, 512, 37 / 2, 0), (37 / 2, 37 / 2, 37 / 2, 0)] \<and>
   map_option (map row_count \<circ> run_droplet_data) (result_of run_shift) = Some [0, 0] \<and>
   map_option (map row_status \<circ> run_droplet_data) (result_of run_shift) =
     Some [TrueNegative, FalseNegative]"
  by (simp add: run_shift_def run_shift_general result_of_def)

text \<open>
  C4 fails on the code.  With no droplet requested, \<open>droplets_simulation_new.py\<close>
  divides the two counts of false calls by \<open>total_drops = 0\<close> and raises
  \<open>ZeroDivisionError\<close>.  \<open>droplets_simulation_data.py\<close> guards the same divisions: on
  an empty population (a total volume of 0) it returns, with both rates and both bounds
  of the interval reported as 0.
\<close>

theorem empty_population_raises:
  "run_empty = Inl ZeroDivisionError \<and>
   map_option stat_total_drops (result_of (calculate_ddpcr_statistics rng_shift binom_pm1
       0 150 3000 (5 / 100) (1 / 100) (5 / 100) (95 / 100))) = Some 0 \<and>
   map_option stat_fp_rate (result_of (calculate_ddpcr_statistics rng_shift binom_pm1
       0 150 3000 (5 / 100) (1 / 100) (5 / 100) (95 / 100))) = Some 0 \<and>
   map_option stat_fn_rate (result_of (calculate_ddpcr_statistics rng_shift binom_pm1
       0 150 3000 (5 / 100) (1 / 100) (5 / 100) (95 / 100))) = Some 0 \<and>
   map_option stat_concentration_ci_lower (result_of (calculate_ddpcr_statistics rng_shift
       binom_pm1 0 150 3000 (5 / 100) (1 / 100) (5 / 100) (95 / 100))) = Some (Fin 0) \<and>
   map_option stat_concentration_ci_upper (result_of (calculate_ddpcr_statistics rng_shift
       binom_pm1 0 150 3000 (5 / 100) (1 / 100) (5 / 100) (95 / 100))) = Some (Fin 0)"
proof -
  have "run_empty = Inl ZeroDivisionError"
    by (simp add: run_empty_def generate_ddpcr_image_new_def Let_def rng_normal_def
         rng_poisson_def pixels_per_um_def place_droplets_def summarize_def
         count_status_def py_truediv_def)
  moreover have "calculate_ddpcr_statistics rng_shift binom_pm1
       0 150 3000 (5 / 100) (1 / 100) (5 / 100) (95 / 100) =
     Inr (statistics_of (randoms rng_shift) binom_pm1 0 150 (5 / 100) (1 / 100) (95 / 100)
            [] [])"
    by (simp add: calculate_ddpcr_statistics_def Let_def py_truediv_def
          sphere_volume_zero_iff py_int_def rng_normal_def rng_poisson_def)
  ultimately show ?thesis
    by (simp add: result_of_def statistics_of_def Let_def)
qed

section \<open>The placement on a canvas that fits and on one that does not\<close>

lemma placement_keeps_distance:
  assumes "rng_ok rng"
    and "place_droplets (uniforms rng) (w, h) diameters counts = Inr droplets"
  shows "separated droplets \<and> inside_canvas w h droplets \<and>
         length droplets \<le> length diameters"
proof -
  from assms(1) have u: "\<forall>idx a. unit_interval (fst (uniforms rng idx a)) \<and>
      unit_interval (snd (uniforms rng idx a))"
    by (simp add: rng_ok_def)
  have "separated []" "inside_canvas w h []"
    by (simp_all add: separated_def inside_canvas_def)
  from place_loop_invariant [OF u assms(2) [unfolded place_droplets_def fst_conv snd_conv] this]
  show ?thesis by simp
qed

lemma place_loop_too_wide:
  assumes "w < diameter \<or> h < diameter"
  shows "place_loop cand w h ((idx, diameter, c) # rest) droplets = Inl NumpyValueError"
proof -
  have a: "place_attempts (cand idx) w h (diameter / 2) droplets 0 (Suc k) =
      Inl NumpyValueError" for k
    using assms by (auto simp: rng_uniform_def)
  have m: "max_attempts = Suc 99"
    by (simp add: max_attempts_def)
  have "place_attempts (cand idx) w h (diameter / 2) droplets 0 max_attempts =
      Inl NumpyValueError"
    by (subst m) (rule a)
  then show ?thesis
    by (simp add: Let_def)
qed

lemma place_droplets_too_wide:
  assumes "0 < n" "w < d \<or> h < d"
  shows "place_droplets cand (w, h) (map (\<lambda>i. d) [0..<n]) (map f [0..<n]) =
    Inl NumpyValueError"
proof -
  from assms(1) obtain k where n: "n = Suc k" by (cases n) auto
  have "zip [0..<length (map (\<lambda>i. d) [0..<n])] (zip (map (\<lambda>i. d) [0..<n]) (map f [0..<n])) =
      (0, d, f 0) # zip [Suc 0..<Suc k] (zip (map (\<lambda>i. d) [Suc 0..<Suc k]) (map f [Suc 0..<Suc k]))"
    by (simp add: n upt_conv_Cons del: upt_Suc)
  then show ?thesis
    using place_loop_too_wide [OF assms(2)]
    by (simp add: place_droplets_def)
qed

text \<open>
  C3 fails on the code in the scenario of a canvas that is too small (500 droplets of
  300 pixels on 200 by 200 pixels).  No candidate centre can lie inside the canvas inset
  by the radius, so the droplets ought to be omitted; instead the first
  \<open>rng.uniform(radius, image_size[0] - radius)\<close>, with its upper bound below its lower
  bound, is rejected by the generator with a \<open>ValueError\<close>, in both image generators.
\<close>

theorem small_canvas_raises:
  "run_small_canvas = Inl NumpyValueError \<and> run_small_canvas_old = Inl NumpyValueError"
proof -
  have p: "\<not> poisson_rejects (5 * sphere_volume_ul (30000 / 37))"
    by (rule poisson_accepts_rate) (simp_all add: power3_eq_cube)
  have pl: "place_droplets cand (200, 200) (map (\<lambda>i. 300) [0..<500]) (map f [0..<500]) =
      Inl NumpyValueError" for cand f
    by (rule place_droplets_too_wide) simp_all
  have "run_small_canvas = Inl NumpyValueError"
    using p
    by (simp add: run_small_canvas_def generate_ddpcr_image_new_def Let_def rng_normal_def
          rng_poisson_def rng_shift_simps pixels_per_um_def np_clip_def list_ex_iff o_def pl)
  moreover have "run_small_canvas_old = Inl NumpyValueError"
    using p
    by (simp add: run_small_canvas_old_def generate_ddpcr_image_def Let_def rng_normal_def
          rng_poisson_def rng_shift_simps pixels_per_um_def list_ex_iff o_def pl)
  ultimately show ?thesis by simp
qed

section \<open>The band of the diameters\<close>

lemma rng_wide_simps:
  "normals rng_wide i = 3"
  "poissons rng_wide i = 0"
  "randoms rng_wide i = 9 / 10"
  "uniforms rng_wide idx = (\<lambda>a. (1 / 2, 1 / 2))"
  by (simp_all add: rng_wide_def)

lemma run_wide_value:
  "run_wide = Inr ([481 / 10], [0], [(766, 512, 481 / 20, 0)])"
proof -
  have a0: "place_attempts (\<lambda>a. (1 / 2, 1 / 2)) 1532 1024 (481 / 20) [] 0 max_attempts =
      Inr (Some (766, 512))"
    by (subst place_attempts_first)
       (simp_all add: max_attempts_def collision_def candidate_def)
  have p: "\<not> poisson_rejects (5 * sphere_volume_ul 130)"
    by (rule poisson_accepts_rate) simp_all
  show ?thesis
    using p
    by (simp add: run_wide_def generate_ddpcr_image_def Let_def rng_normal_def
        rng_poisson_def rng_wide_simps pixels_per_um_def
        place_droplets_def a0)
qed

lemma data_shift_value:
  "calculate_ddpcr_statistics rng_shift bi (7 / 2 * sphere_volume_ul 100) 100 300 fnr fpr
     (1 / 10) cl =
   Inr (statistics_of (randoms rng_shift) bi (7 / 2 * sphere_volume_ul 100) 100 fnr fpr cl
          [100, 100, 100] [0, 1, 0])"
proof -
  have p: "\<not> poisson_rejects (300 * sphere_volume_ul 100)"
    by (rule poisson_accepts_rate) simp_all
  show ?thesis
    using p
    by (simp add: calculate_ddpcr_statistics_def Let_def py_truediv_def
          sphere_volume_zero_iff py_int_def rng_normal_def rng_poisson_def rng_shift_simps
          upt3 np_clip_def)
qed

lemma old_shift_value:
  "generate_ddpcr_image rng_shift 100 300 (1532, 1024) 3 =
     Inr ([37, 37, 37], [0, 1, 0], [(766, 512, 37 / 2, 0), (37 / 2, 37 / 2, 37 / 2, 0)])"
proof -
  have p: "\<not> poisson_rejects (300 * sphere_volume_ul 100)"
    by (rule poisson_accepts_rate) simp_all
  show ?thesis
    using p
    by (simp add: generate_ddpcr_image_def Let_def rng_normal_def rng_poisson_def
          rng_shift_simps pixels_per_um_def upt3 sphere_volume_zero_iff run_shift_place)
qed

text \<open>
  C5, as stated, fails for \<open>droplets_simulation.py\<close>: that module clips the diameters
  below only, at 1 pixel.  With a normal variate of 3 the diameter is 48.1 pixels, above
  1.2 times the mean of 37 pixels.
\<close>

theorem unclamped_diameter_in_first_generator:
  "map_option fst (result_of run_wide) = Some [481 / 10] \<and>
   \<not> (481 / 10 \<le> 100 * pixels_per_um * (12 / 10))"
  by (simp add: run_wide_value result_of_def pixels_per_um_def)

lemma placed_diameter:
  assumes "place_droplets cand image_size diameters counts = Inr droplets"
    and "(x, y, radius, c) \<in> set droplets"
  shows "radius * 2 \<in> set diameters"
proof -
  from place_loop_members [OF assms(1) [unfolded place_droplets_def] assms(2)]
  obtain idx diameter where
    m: "(idx, diameter, c) \<in> set (zip [0..<length diameters] (zip diameters counts))"
    and r: "radius = diameter / 2"
    by auto
  from m have "(diameter, c) \<in> set (zip diameters counts)"
    by (rule set_zip_rightD)
  then have "diameter \<in> set diameters"
    by (rule set_zip_leftD)
  with r show ?thesis by simp
qed

text \<open>
  C5, amended.  For a mean diameter that is not negative: in
  \<open>droplets_simulation_data.py\<close> and in \<open>droplets_simulation_new.py\<close> every diameter (in
  micrometres), of every generated droplet and of every row of the placed population,
  lies in the band from 0.8 to 1.2 times the mean and is not negative; in
  \<open>droplets_simulation.py\<close> every diameter (in pixels), generated or placed, is at least
  1, with no upper bound.
\<close>

theorem diameters_clamped:
  assumes "0 \<le> average_diameter_um"
  shows "(\<forall>s. calculate_ddpcr_statistics rng bi tv average_diameter_um conc fnr fpr var cl = Inr s \<longrightarrow>
            (\<forall>d\<in>set (trace_diameters s).
               0 \<le> d \<and> average_diameter_um * (8 / 10) \<le> d \<and> d \<le> average_diameter_um * (12 / 10))) \<and>
         (\<forall>r. generate_ddpcr_image_new rng average_diameter_um conc image_size n fnr fpr var = Inr r \<longrightarrow>
            (\<forall>d\<in>set (run_diameters_um r).
               0 \<le> d \<and> average_diameter_um * (8 / 10) \<le> d \<and> d \<le> average_diameter_um * (12 / 10)) \<and>
            (\<forall>row\<in>set (run_droplet_data r).
               0 \<le> row_diameter_um row \<and>
               average_diameter_um * (8 / 10) \<le> row_diameter_um row \<and>
               row_diameter_um row \<le> average_diameter_um * (12 / 10))) \<and>
         (\<forall>diameters counts droplets.
            generate_ddpcr_image rng average_diameter_um conc image_size n =
              Inr (diameters, counts, droplets) \<longrightarrow>
            (\<forall>d\<in>set diameters. 1 \<le> d) \<and>
            (\<forall>(x, y, radius, c)\<in>set droplets. 1 \<le> radius * 2))"
proof (intro conjI allI impI)
  let ?a = average_diameter_um
  have lo: "0 \<le> ?a * (8 / 10)" using assms by simp
  {
    fix s d
    assume s: "calculate_ddpcr_statistics rng bi tv ?a conc fnr fpr var cl = Inr s"
      and d: "d \<in> set (trace_diameters s)"
    from d calc_Inr(3) [OF s] obtain z where
      "d = np_clip z (?a * (8 / 10)) (?a * (12 / 10))"
      by auto
    with np_clip_band [OF assms, of z] lo
    have "0 \<le> d \<and> ?a * (8 / 10) \<le> d \<and> d \<le> ?a * (12 / 10)"
      by simp
  }
  then show "\<And>s. calculate_ddpcr_statistics rng bi tv ?a conc fnr fpr var cl = Inr s \<Longrightarrow>
      \<forall>d\<in>set (trace_diameters s). 0 \<le> d \<and> ?a * (8 / 10) \<le> d \<and> d \<le> ?a * (12 / 10)"
    by blast
  have um: "0 \<le> d \<and> ?a * (8 / 10) \<le> d \<and> d \<le> ?a * (12 / 10)"
    if r: "generate_ddpcr_image_new rng ?a conc image_size n fnr fpr var = Inr r"
      and d: "d * pixels_per_um \<in> set (run_diameters r)" for r d
  proof -
    have p: "0 \<le> ?a * pixels_per_um" using assms by (simp add: pixels_per_um_def)
    from d gen_new_Inr(1) [OF r] obtain z where
      "d * pixels_per_um =
         np_clip z (?a * pixels_per_um * (8 / 10)) (?a * pixels_per_um * (12 / 10))"
      by auto
    with np_clip_band [OF p, of z]
    have "?a * pixels_per_um * (8 / 10) \<le> d * pixels_per_um"
      "d * pixels_per_um \<le> ?a * pixels_per_um * (12 / 10)"
      by simp_all
    then have "?a * (8 / 10) \<le> d" "d \<le> ?a * (12 / 10)"
      by (simp_all add: pixels_per_um_def)
    with lo show ?thesis by simp
  qed
  {
    fix r d
    assume r: "generate_ddpcr_image_new rng ?a conc image_size n fnr fpr var = Inr r"
      and d: "d \<in> set (run_diameters_um r)"
    from d gen_new_Inr(2) [OF r] have "d * pixels_per_um \<in> set (run_diameters r)"
      by (auto simp: pixels_per_um_def)
    from um [OF r this] have "0 \<le> d \<and> ?a * (8 / 10) \<le> d \<and> d \<le> ?a * (12 / 10)" .
  }
  then show "\<And>r. generate_ddpcr_image_new rng ?a conc image_size n fnr fpr var = Inr r \<Longrightarrow>
      \<forall>d\<in>set (run_diameters_um r). 0 \<le> d \<and> ?a * (8 / 10) \<le> d \<and> d \<le> ?a * (12 / 10)"
    by blast
  {
    fix r row
    assume r: "generate_ddpcr_image_new rng ?a conc image_size n fnr fpr var = Inr r"
      and row: "row \<in> set (run_droplet_data r)"
    from data_loop_rows [OF gen_new_Inr(8) [OF r] row] obtain idx x y radius c where
      m: "(idx, (x, y, radius, c)) \<in> set (zip [0..<length (run_droplets r)] (run_droplets r))"
      and rd: "row_diameter_um row = (radius * 2) / pixels_per_um"
      by auto
    from m have "(x, y, radius, c) \<in> set (run_droplets r)"
      by (rule set_zip_rightD)
    from rd have "row_diameter_um row * pixels_per_um = radius * 2"
      by (simp add: pixels_per_um_def)
    with placed_diameter [OF gen_new_Inr(7) [OF r] \<open>(x, y, radius, c) \<in> set (run_droplets r)\<close>]
    have "row_diameter_um row * pixels_per_um \<in> set (run_diameters r)"
      by (simp only:)
    from um [OF r this]
    have "0 \<le> row_diameter_um row \<and> ?a * (8 / 10) \<le> row_diameter_um row \<and>
          row_diameter_um row \<le> ?a * (12 / 10)" .
  }
  then show "\<And>r. generate_ddpcr_image_new rng ?a conc image_size n fnr fpr var = Inr r \<Longrightarrow>
      \<forall>row\<in>set (run_droplet_data r). 0 \<le> row_diameter_um row \<and>
        ?a * (8 / 10) \<le> row_diameter_um row \<and> row_diameter_um row \<le> ?a * (12 / 10)"
    by blast
  {
    fix diameters counts droplets
    assume g: "generate_ddpcr_image rng ?a conc image_size n = Inr (diameters, counts, droplets)"
    from gen_Inr(1) [OF g] have d1: "\<forall>d\<in>set diameters. 1 \<le> d"
      by auto
    have "\<forall>(x, y, radius, c)\<in>set droplets. 1 \<le> radius * 2"
      using placed_diameter [OF gen_Inr(3) [OF g]] d1 by blast
    note d1 this
  }
  then show "\<And>diameters counts droplets.
      generate_ddpcr_image rng ?a conc image_size n = Inr (diameters, counts, droplets) \<Longrightarrow>
      \<forall>d\<in>set diameters. 1 \<le> d"
    and "\<And>diameters counts droplets.
      generate_ddpcr_image rng ?a conc image_size n = Inr (diameters, counts, droplets) \<Longrightarrow>
      \<forall>(x, y, radius, c)\<in>set droplets. 1 \<le> radius * 2"
    by blast+
qed

theorem diameters_clamped_witness:
  "(0::real) \<le> 100 \<and>
   (\<exists>s. calculate_ddpcr_statistics rng_shift binom_pm1 (7 / 2 * sphere_volume_ul 100) 100 300
          (1 / 10) (5 / 100) (1 / 10) (95 / 100) = Inr s \<and>
        trace_diameters s = [100, 100, 100] \<and>
        (\<forall>d\<in>set (trace_diameters s). 0 \<le> d \<and> 100 * (8 / 10) \<le> d \<and> d \<le> 100 * (12 / 10))) \<and>
   (\<exists>r. generate_ddpcr_image_new rng_shift 100 300 (1532, 1024) 3 (1 / 10) (5 / 100) (1 / 10) =
          Inr r \<and>
        run_diameters_um r = [100, 100, 100] \<and>
        (\<forall>row\<in>set (run_droplet_data r).
           0 \<le> row_diameter_um row \<and> 100 * (8 / 10) \<le> row_diameter_um row \<and>
           row_diameter_um row \<le> 100 * (12 / 10))) \<and>
   (\<exists>diameters counts droplets.
      generate_ddpcr_image rng_shift 100 300 (1532, 1024) 3 = Inr (diameters, counts, droplets) \<and>
      diameters = [37, 37, 37] \<and> (\<forall>d\<in>set diameters. 1 \<le> d))"
proof -
  have h: "(0::real) \<le> 100" by simp
  note t = diameters_clamped [OF h, where rng = rng_shift and bi = binom_pm1
      and tv = "7 / 2 * sphere_volume_ul 100" and conc = 300 and fnr = "1 / 10"
      and fpr = "5 / 100" and var = "1 / 10" and cl = "95 / 100"
      and image_size = "(1532, 1024)" and n = 3]
  have n: "generate_ddpcr_image_new rng_shift 100 300 (1532, 1024) 3 (1 / 10) (5 / 100) (1 / 10) =
      Inr (the (result_of run_shift))"
    by (simp add: run_shift_def run_shift_general result_of_def)
  have nd: "run_diameters_um (the (result_of run_shift)) = [100, 100, 100]"
    by (simp add: run_shift_def run_shift_general result_of_def)
  from t data_shift_value [of binom_pm1 "1 / 10" "5 / 100" "95 / 100"] n nd old_shift_value
  show ?thesis
    by (simp add: statistics_of_fields)
qed

section \<open>The denominator of the relative size\<close>

lemma rng_big_simps:
  "normals rng_big i = 1"
  "poissons rng_big i = 0"
  "randoms rng_big i = 9 / 10"
  "uniforms rng_big idx = (\<lambda>a. (1 / 2, 1 / 2))"
  by (simp_all add: rng_big_def)

lemma run_big_value:
  "run_big =
    Inr \<lparr>run_diameters = [407 / 10], run_diameters_um = [110],
         run_molecular_counts = [0],
         run_false_negative_rates = [11 / 100],
         run_false_positive_rates = [11 / 200],
         run_droplet_states =
           [\<lparr>st_count = 0, is_false_negative = False, is_false_positive = False\<rparr>],
         run_droplets = [(766, 512, 407 / 20, 0)],
         run_droplet_data =
           [\<lparr>row_diameter_um = 110, row_x = 766, row_y = 512, row_count = 0,
               row_status = TrueNegative\<rparr>],
         run_summary =
           \<lparr>sum_total_drops = 1, sum_true_positive = 0, sum_false_positive = 0,
              sum_true_negative = 1, sum_false_negative = 0, sum_false_positive_rate = 0,
              sum_false_negative_rate = 0, sum_mean_diameter = Fin 110,
              sum_std_diameter = Fin 0, sum_cv_diameter = Fin 0\<rparr>\<rparr>"
proof -
  have a0: "place_attempts (\<lambda>a. (1 / 2, 1 / 2)) 1532 1024 (407 / 20) [] 0 max_attempts =
      Inr (Some (766, 512))"
    by (subst place_attempts_first)
       (simp_all add: max_attempts_def collision_def candidate_def)
  have p: "\<not> poisson_rejects (300 * sphere_volume_ul 110)"
    by (rule poisson_accepts_rate) simp_all
  show ?thesis
    using p
    by (simp add: run_big_def generate_ddpcr_image_new_def Let_def rng_normal_def
       rng_poisson_def rng_big_simps pixels_per_um_def np_clip_def
       droplet_state_at_def place_droplets_def a0 py_index_def
       display_status_of_def summarize_def count_status_def py_truediv_def np_mean_def
       np_std_def)
qed

text \<open>
  C2, as stated, fails: in this run of \<open>droplets_simulation_new.py\<close> the one droplet has
  a diameter of 110 micrometres and is placed, so the mean diameter of the placed
  population is 110 and the relative size of the claim is 1; the dynamic rates of the
  code are the base rates times \<open>110 / 100\<close>, the diameter over the configured mean.
\<close>

theorem rates_do_not_use_population_mean:
  "map_option run_diameters_um (result_of run_big) = Some [110] \<and>
   map_option (sum_mean_diameter \<circ> run_summary) (result_of run_big) = Some (Fin 110) \<and>
   map_option run_false_negative_rates (result_of run_big) = Some [11 / 100] \<and>
   map_option run_false_positive_rates (result_of run_big) = Some [11 / 200] \<and>
   (11 / 100 :: real) \<noteq> 1 / 10 * (110 / 110) \<and>
   (11 / 200 :: real) \<noteq> 5 / 100 * (110 / 110)"
  by (simp add: run_big_value result_of_def)

text \<open>
  C2, amended.  The relative size of a droplet is its diameter divided by the
  configured mean diameter \<open>average_diameter_um\<close>, and the dynamic false-negative and
  false-positive probabilities are the base rates times that relative size.  In
  \<open>droplets_simulation_new.py\<close> the false calls are drawn with these probabilities for
  every generated droplet, placed or not: there is one state per generated droplet, and
  its two flags are decided by the droplet's own count, its own draw and its own
  dynamic rate.  \<open>droplets_simulation_data.py\<close> computes the same two rates.
\<close>

theorem rates_use_configured_mean:
  "(\<forall>r. generate_ddpcr_image_new rng average_diameter_um conc image_size n fnr fpr var = Inr r \<longrightarrow>
      length (run_diameters_um r) = nat n \<and>
      length (run_molecular_counts r) = nat n \<and>
      length (run_droplet_states r) = nat n \<and>
      (\<forall>i<nat n.
         run_false_negative_rates r ! i = fnr * (run_diameters_um r ! i / average_diameter_um) \<and>
         run_false_positive_rates r ! i = fpr * (run_diameters_um r ! i / average_diameter_um) \<and>
         is_false_negative (run_droplet_states r ! i) =
           (0 < run_molecular_counts r ! i \<and>
            randoms rng i < fnr * (run_diameters_um r ! i / average_diameter_um)) \<and>
         is_false_positive (run_droplet_states r ! i) =
           (run_molecular_counts r ! i = 0 \<and>
            randoms rng i < fpr * (run_diameters_um r ! i / average_diameter_um)))) \<and>
   (\<forall>s. calculate_ddpcr_statistics rng bi tv average_diameter_um conc fnr fpr var cl = Inr s \<longrightarrow>
      (\<forall>i<length (trace_diameters s).
         trace_false_negative_rates s ! i = fnr * (trace_diameters s ! i / average_diameter_um) \<and>
         trace_false_positive_rates s ! i = fpr * (trace_diameters s ! i / average_diameter_um)))"
proof -
  have new: "length (run_diameters_um r) = nat n \<and>
      length (run_molecular_counts r) = nat n \<and>
      length (run_droplet_states r) = nat n \<and>
      (\<forall>i<nat n.
         run_false_negative_rates r ! i = fnr * (run_diameters_um r ! i / average_diameter_um) \<and>
         run_false_positive_rates r ! i = fpr * (run_diameters_um r ! i / average_diameter_um) \<and>
         is_false_negative (run_droplet_states r ! i) =
           (0 < run_molecular_counts r ! i \<and>
            randoms rng i < fnr * (run_diameters_um r ! i / average_diameter_um)) \<and>
         is_false_positive (run_droplet_states r ! i) =
           (run_molecular_counts r ! i = 0 \<and>
            randoms rng i < fpr * (run_diameters_um r ! i / average_diameter_um)))"
    if r: "generate_ddpcr_image_new rng average_diameter_um conc image_size n fnr fpr var = Inr r"
    for r
  proof -
    note g = gen_new_Inr [OF r]
    from g(1,2) have lu: "length (run_diameters_um r) = nat n"
      by simp
    from g(1,3) have lc: "length (run_molecular_counts r) = nat n"
      by simp
    from g(6) lc have ls: "length (run_droplet_states r) = nat n"
      by simp
    have "run_false_negative_rates r ! i = fnr * (run_diameters_um r ! i / average_diameter_um) \<and>
         run_false_positive_rates r ! i = fpr * (run_diameters_um r ! i / average_diameter_um) \<and>
         is_false_negative (run_droplet_states r ! i) =
           (0 < run_molecular_counts r ! i \<and>
            randoms rng i < fnr * (run_diameters_um r ! i / average_diameter_um)) \<and>
         is_false_positive (run_droplet_states r ! i) =
           (run_molecular_counts r ! i = 0 \<and>
            randoms rng i < fpr * (run_diameters_um r ! i / average_diameter_um))"
      if i: "i < nat n" for i
    proof -
      have fn: "run_false_negative_rates r ! i =
          fnr * (run_diameters_um r ! i / average_diameter_um)"
        using g(4) i lu by simp
      have fp: "run_false_positive_rates r ! i =
          fpr * (run_diameters_um r ! i / average_diameter_um)"
        using g(5) i lu by simp
      have st: "run_droplet_states r ! i =
          droplet_state_at (randoms rng) (run_molecular_counts r)
            (run_false_negative_rates r) (run_false_positive_rates r) i"
        using i lc by (subst g(6)) simp
      show ?thesis
        unfolding st using fn fp by (simp add: droplet_state_at_def)
    qed
    with lu lc ls show ?thesis by blast
  qed
  have data: "trace_false_negative_rates s ! i =
        fnr * (trace_diameters s ! i / average_diameter_um) \<and>
      trace_false_positive_rates s ! i =
        fpr * (trace_diameters s ! i / average_diameter_um)"
    if s: "calculate_ddpcr_statistics rng bi tv average_diameter_um conc fnr fpr var cl = Inr s"
      and i: "i < length (trace_diameters s)" for s i
  proof -
    from calc_Inr(2) [OF s]
    have "trace_false_negative_rates s =
        map (\<lambda>d. fnr * (d / average_diameter_um)) (trace_diameters s)"
      "trace_false_positive_rates s =
        map (\<lambda>d. fpr * (d / average_diameter_um)) (trace_diameters s)"
      by (metis statistics_of_fields(3), metis statistics_of_fields(4))
    with i show ?thesis by simp
  qed
  from new data show ?thesis by blast
qed

theorem rates_use_configured_mean_witness:
  "result_of run_shift \<noteq> None \<and>
   length (run_droplet_states (the (result_of run_shift))) = 3 \<and>
   length (run_droplets (the (result_of run_shift))) = 2 \<and>
   run_false_negative_rates (the (result_of run_shift)) ! 1 =
     1 / 10 * (run_diameters_um (the (result_of run_shift)) ! 1 / 100) \<and>
   is_false_negative (run_droplet_states (the (result_of run_shift)) ! 1) \<and>
   (\<exists>s. calculate_ddpcr_statistics rng_shift binom_pm1 (7 / 2 * sphere_volume_ul 100) 100 300
          (1 / 10) (5 / 100) (1 / 10) (95 / 100) = Inr s \<and>
        length (trace_diameters s) = 3 \<and>
        trace_false_negative_rates s ! 1 = 1 / 10 * (trace_diameters s ! 1 / 100))"
proof -
  note t = rates_use_configured_mean [where rng = rng_shift and bi = binom_pm1
      and average_diameter_um = 100
      and tv = "7 / 2 * sphere_volume_ul 100" and conc = 300 and fnr = "1 / 10"
      and fpr = "5 / 100" and var = "1 / 10" and cl = "95 / 100"
      and image_size = "(1532, 1024)" and n = 3]
  have n: "generate_ddpcr_image_new rng_shift 100 300 (1532, 1024) 3 (1 / 10) (5 / 100) (1 / 10) =
      Inr (the (result_of run_shift))"
    by (simp add: run_shift_def run_shift_general result_of_def)
  have v: "result_of run_shift \<noteq> None"
    "length (run_droplets (the (result_of run_shift))) = 2"
    "run_molecular_counts (the (result_of run_shift)) ! 1 = 1"
    "run_diameters_um (the (result_of run_shift)) ! 1 = 100"
    by (simp_all add: run_shift_def run_shift_general result_of_def)
  have r1: "randoms rng_shift 1 = 0"
    by (simp add: rng_shift_simps)
  from t n have a: "length (run_droplet_states (the (result_of run_shift))) = nat 3"
    and b: "\<forall>i<nat 3.
      run_false_negative_rates (the (result_of run_shift)) ! i =
        1 / 10 * (run_diameters_um (the (result_of run_shift)) ! i / 100) \<and>
      is_false_negative (run_droplet_states (the (result_of run_shift)) ! i) =
        (0 < run_molecular_counts (the (result_of run_shift)) ! i \<and>
         randoms rng_shift i < 1 / 10 * (run_diameters_um (the (result_of run_shift)) ! i / 100))"
    by blast+
  from b have b1: "run_false_negative_rates (the (result_of run_shift)) ! 1 =
        1 / 10 * (run_diameters_um (the (result_of run_shift)) ! 1 / 100)"
    "is_false_negative (run_droplet_states (the (result_of run_shift)) ! 1) =
        (0 < run_molecular_counts (the (result_of run_shift)) ! 1 \<and>
         randoms rng_shift 1 < 1 / 10 * (run_diameters_um (the (result_of run_shift)) ! 1 / 100))"
    by simp_all
  from t data_shift_value [of binom_pm1 "1 / 10" "5 / 100" "95 / 100"]
  have c: "\<exists>s. calculate_ddpcr_statistics rng_shift binom_pm1 (7 / 2 * sphere_volume_ul 100) 100
          300 (1 / 10) (5 / 100) (1 / 10) (95 / 100) = Inr s \<and>
        length (trace_diameters s) = 3 \<and>
        trace_false_negative_rates s ! 1 = 1 / 10 * (trace_diameters s ! 1 / 100)"
    by (simp add: statistics_of_fields)
  from a b1 v r1 c show ?thesis
    by simp
qed

section \<open>The limits of detection and quantification\<close>

text \<open>
  C7.  For a false-positive rate in \<open>[0, 1)\<close>, whenever \<open>calculate_ddpcr_statistics\<close>
  returns, the detection limit is \<open>(b + 3 * sqrt b) / single_droplet_volume\<close> with
  \<open>b = -ln (1 - false_positive_rate)\<close>, and the quantification limit is 3.3 times the
  detection limit.  The function does return for a total volume, a concentration and a
  variability that are not negative, a positive mean diameter and Poisson rates that
  the sampler accepts.
\<close>

theorem loq_is_3_3_times_lod:
  assumes "0 \<le> false_positive_rate" and "false_positive_rate < 1"
  shows "(\<forall>s. calculate_ddpcr_statistics rng bi total_volume_ul average_diameter_um
              concentration fnr false_positive_rate diameter_variance cl = Inr s \<longrightarrow>
            blank_lambda false_positive_rate = Fin (- ln (1 - false_positive_rate)) \<and>
            stat_lod_copies_per_ul s =
              Fin ((- ln (1 - false_positive_rate) + 3 * sqrt (- ln (1 - false_positive_rate))) /
                   sphere_volume_ul average_diameter_um) \<and>
            stat_loq_copies_per_ul s =
              Fin (33 / 10 *
                   ((- ln (1 - false_positive_rate) + 3 * sqrt (- ln (1 - false_positive_rate))) /
                    sphere_volume_ul average_diameter_um)) \<and>
            stat_loq_copies_per_ul s = np_mul (Fin (33 / 10)) (stat_lod_copies_per_ul s)) \<and>
         (0 \<le> total_volume_ul \<and> 0 < average_diameter_um \<and> 0 \<le> concentration \<and>
          0 \<le> diameter_variance \<and>
          \<not> poisson_rejects (concentration * sphere_volume_ul (average_diameter_um * (12 / 10))) \<longrightarrow>
            (\<exists>s. calculate_ddpcr_statistics rng bi total_volume_ul average_diameter_um
                   concentration fnr false_positive_rate diameter_variance cl = Inr s))"
proof -
  have b: "blank_lambda false_positive_rate = Fin (- ln (1 - false_positive_rate))"
    using assms by (simp add: blank_lambda_def)
  have fields: "stat_lod_copies_per_ul s =
              Fin ((- ln (1 - false_positive_rate) + 3 * sqrt (- ln (1 - false_positive_rate))) /
                   sphere_volume_ul average_diameter_um) \<and>
            stat_loq_copies_per_ul s =
              Fin (33 / 10 *
                   ((- ln (1 - false_positive_rate) + 3 * sqrt (- ln (1 - false_positive_rate))) /
                    sphere_volume_ul average_diameter_um)) \<and>
            stat_loq_copies_per_ul s = np_mul (Fin (33 / 10)) (stat_lod_copies_per_ul s)"
    if s: "calculate_ddpcr_statistics rng bi total_volume_ul average_diameter_um
              concentration fnr false_positive_rate diameter_variance cl = Inr s" for s
  proof -
    note c = calc_Inr [OF s]
    from c(2) have lod: "stat_lod_copies_per_ul s =
        lod_of false_positive_rate (sphere_volume_ul average_diameter_um)"
      by (metis statistics_of_fields(6))
    from c(2) have loq: "stat_loq_copies_per_ul s =
        loq_of false_positive_rate (sphere_volume_ul average_diameter_um)"
      by (metis statistics_of_fields(7))
    from lod_of_valid [OF assms c(1)] lod loq show ?thesis
      by (simp add: loq_of_def)
  qed
  have returns: "\<exists>s. calculate_ddpcr_statistics rng bi total_volume_ul average_diameter_um
                   concentration fnr false_positive_rate diameter_variance cl = Inr s"
    if "0 \<le> total_volume_ul \<and> 0 < average_diameter_um \<and> 0 \<le> concentration \<and>
          0 \<le> diameter_variance \<and>
          \<not> poisson_rejects (concentration * sphere_volume_ul (average_diameter_um * (12 / 10)))"
    using that by (intro calc_returns) simp_all
  from b fields returns show ?thesis by blast
qed

theorem loq_is_3_3_times_lod_witness:
  "(0::real) \<le> 1 / 100 \<and> (1 / 100 :: real) < 1 \<and>
   (0::real) \<le> 25 \<and> (0::real) < 150 \<and> (0::real) \<le> 3000 \<and> (0::real) \<le> 5 / 100 \<and>
   \<not> poisson_rejects (3000 * sphere_volume_ul (150 * (12 / 10))) \<and>
   (\<exists>s. calculate_ddpcr_statistics rng_shift binom_pm1 25 150 3000 (5 / 100) (1 / 100) (5 / 100)
          (95 / 100) = Inr s \<and>
        stat_lod_copies_per_ul s =
          Fin ((- ln (1 - 1 / 100) + 3 * sqrt (- ln (1 - 1 / 100))) / sphere_volume_ul 150) \<and>
        stat_loq_copies_per_ul s = np_mul (Fin (33 / 10)) (stat_lod_copies_per_ul s))"
proof -
  have p: "\<not> poisson_rejects (3000 * sphere_volume_ul (150 * (12 / 10)))"
    by (rule poisson_accepts_rate) simp_all
  have h: "(0::real) \<le> 1 / 100" "(1 / 100 :: real) < 1"
    by simp_all
  note t = loq_is_3_3_times_lod [OF h, where rng = rng_shift and bi = binom_pm1
      and total_volume_ul = 25 and average_diameter_um = 150 and concentration = 3000
      and fnr = "5 / 100" and diameter_variance = "5 / 100" and cl = "95 / 100"]
  from t p obtain s where
    "calculate_ddpcr_statistics rng_shift binom_pm1 25 150 3000 (5 / 100) (1 / 100) (5 / 100)
          (95 / 100) = Inr s"
    by auto
  with t p show ?thesis
    by auto
qed

section \<open>A false-positive rate of zero\<close>

lemma tally_step_partition:
  "true_positive (tally_step random counts fns fps t i) +
   false_negative (tally_step random counts fns fps t i) =
     true_positive t + false_negative t + (if 0 < counts ! i then 1 else 0)"
  "false_positive (tally_step random counts fns fps t i) +
   true_negative (tally_step random counts fns fps t i) =
     false_positive t + true_negative t + (if counts ! i = 0 then 1 else 0)"
  by (simp_all add: tally_step_def)

lemma tally_foldl_partition:
  "n \<le> length counts \<Longrightarrow>
   true_positive (foldl (tally_step random counts fns fps) t [0..<n]) +
   false_negative (foldl (tally_step random counts fns fps) t [0..<n]) =
     true_positive t + false_negative t + length (filter (\<lambda>c. 0 < c) (take n counts)) \<and>
   false_positive (foldl (tally_step random counts fns fps) t [0..<n]) +
   true_negative (foldl (tally_step random counts fns fps) t [0..<n]) =
     false_positive t + true_negative t + length (filter (\<lambda>c. c = 0) (take n counts))"
proof (induction n)
  case 0
  then show ?case by simp
next
  case (Suc n)
  then have n: "n < length counts" by simp
  from Suc have ih: "true_positive (foldl (tally_step random counts fns fps) t [0..<n]) +
   false_negative (foldl (tally_step random counts fns fps) t [0..<n]) =
     true_positive t + false_negative t + length (filter (\<lambda>c. 0 < c) (take n counts))"
   "false_positive (foldl (tally_step random counts fns fps) t [0..<n]) +
   true_negative (foldl (tally_step random counts fns fps) t [0..<n]) =
     false_positive t + true_negative t + length (filter (\<lambda>c. c = 0) (take n counts))"
    by simp_all
  show ?case
    using ih by (simp add: take_Suc_conv_app_nth [OF n] tally_step_partition)
qed

lemma tally_loop_partition:
  "true_positive (tally_loop random counts fns fps) +
   false_negative (tally_loop random counts fns fps) = length (filter (\<lambda>c. 0 < c) counts)"
  "false_positive (tally_loop random counts fns fps) +
   true_negative (tally_loop random counts fns fps) = length (filter (\<lambda>c. c = 0) counts)"
  using tally_foldl_partition [of "length counts" counts random fns fps
      "\<lparr>true_positive = 0, false_positive = 0, true_negative = 0, false_negative = 0\<rparr>"]
  by (simp_all add: tally_loop_def)

lemma statistics_of_negatives:
  "stat_tn_count (statistics_of random bi tv avg fnr fpr cl diameters counts) =
     true_negative (tally_loop random counts (map (\<lambda>d. fnr * (d / avg)) diameters)
        (map (\<lambda>d. fpr * (d / avg)) diameters))"
  "stat_fn_count (statistics_of random bi tv avg fnr fpr cl diameters counts) =
     false_negative (tally_loop random counts (map (\<lambda>d. fnr * (d / avg)) diameters)
        (map (\<lambda>d. fpr * (d / avg)) diameters))"
  by (simp_all add: statistics_of_def Let_def o_def)

lemma summarize_Inr:
  "summarize droplet_data = Inr sm \<Longrightarrow>
   sum_false_positive sm = count_status FalsePositive droplet_data \<and>
   sum_total_drops sm = length droplet_data \<and> droplet_data \<noteq> []"
  by (auto simp: summarize_def Let_def py_truediv_def split: sum.splits if_splits)

lemma rng_ok_shift: "rng_ok rng_shift"
  by (simp add: rng_ok_def unit_interval_def rng_shift_def)

lemma display_status_without_false_positive:
  "\<not> is_false_positive st \<Longrightarrow>
   display_status_of st c \<noteq> FalsePositive \<and>
   (c = 0 \<longrightarrow> display_status_of st c = TrueNegative \<or> display_status_of st c = FalseNegative)"
  by (simp add: display_status_of_def)

text \<open>
  C8.  With \<open>false_positive_rate = 0\<close> and draws of \<open>rng.random()\<close> in \<open>[0, 1)\<close>: the
  blank rate is 0 and, whenever \<open>calculate_ddpcr_statistics\<close> returns, the detection
  limit is 0, no false positive is counted, and every droplet without a molecule is
  counted as a true negative; whenever \<open>droplets_simulation_new.py\<close> returns, no droplet
  state is flagged as a false positive, no row is recorded as a false positive, and a
  row with a count of 0 is recorded with a negative call, whatever the relative
  diameter is.
\<close>

theorem no_false_positive_at_zero_rate:
  assumes "rng_ok rng"
  shows "blank_lambda 0 = Fin 0 \<and>
         (\<forall>s. calculate_ddpcr_statistics rng bi tv avg conc fnr 0 var cl = Inr s \<longrightarrow>
            stat_lod_copies_per_ul s = Fin 0 \<and>
            (\<forall>i<length (trace_diameters s). trace_false_positive_rates s ! i = 0) \<and>
            stat_fp_count s = 0 \<and> stat_fp_rate s = 0 \<and>
            stat_tn_count s = length (filter (\<lambda>c. c = 0) (trace_molecular_counts s))) \<and>
         (\<forall>r. generate_ddpcr_image_new rng avg conc image_size n fnr 0 var = Inr r \<longrightarrow>
            (\<forall>p\<in>set (run_false_positive_rates r). p = 0) \<and>
            (\<forall>st\<in>set (run_droplet_states r). \<not> is_false_positive st) \<and>
            (\<forall>row\<in>set (run_droplet_data r).
               row_status row \<noteq> FalsePositive \<and>
               (row_count row = 0 \<longrightarrow>
                  row_status row = TrueNegative \<or> row_status row = FalseNegative)) \<and>
            sum_false_positive (run_summary r) = 0)"
proof -
  from assms have u: "\<not> randoms rng i < 0" for i
    by (simp add: rng_ok_def unit_interval_def not_less)
  have b: "blank_lambda 0 = Fin 0"
    by (simp add: blank_lambda_def)
  have data: "stat_lod_copies_per_ul s = Fin 0 \<and>
            (\<forall>i<length (trace_diameters s). trace_false_positive_rates s ! i = 0) \<and>
            stat_fp_count s = 0 \<and> stat_fp_rate s = 0 \<and>
            stat_tn_count s = length (filter (\<lambda>c. c = 0) (trace_molecular_counts s))"
    if s: "calculate_ddpcr_statistics rng bi tv avg conc fnr 0 var cl = Inr s" for s
  proof -
    note c = calc_Inr [OF s]
    let ?D = "trace_diameters s" and ?C = "trace_molecular_counts s"
    let ?T = "tally_loop (randoms rng) ?C (map (\<lambda>d. fnr * (d / avg)) ?D)
        (map (\<lambda>d. 0 * (d / avg)) ?D)"
    from c(2) have lod: "stat_lod_copies_per_ul s = lod_of 0 (sphere_volume_ul avg)"
      by (metis statistics_of_fields(6))
    from c(2) have fps: "trace_false_positive_rates s = map (\<lambda>d. 0 * (d / avg)) ?D"
      by (metis statistics_of_fields(4))
    from c(2) have fp: "stat_fp_count s = false_positive ?T"
      by (metis statistics_of_counts(2))
    from c(2) have fpr: "stat_fp_rate s =
        (if length ?C > 0 then of_nat (false_positive ?T) / of_nat (length ?C) else 0)"
      by (metis statistics_of_counts(3))
    from c(2) have tn: "stat_tn_count s = true_negative ?T"
      by (metis statistics_of_negatives(1))
    have z: "false_positive ?T = 0"
      using u c(4) by (intro tally_loop_false_positive) simp
    from tally_loop_partition(2) [of "randoms rng" ?C "map (\<lambda>d. fnr * (d / avg)) ?D"
        "map (\<lambda>d. 0 * (d / avg)) ?D"] z
    have "true_negative ?T = length (filter (\<lambda>c. c = 0) ?C)"
      by simp
    with lod fps fp fpr tn z lod_of_zero_rate [OF c(1)] show ?thesis
      by simp
  qed
  have new: "(\<forall>p\<in>set (run_false_positive_rates r). p = 0) \<and>
            (\<forall>st\<in>set (run_droplet_states r). \<not> is_false_positive st) \<and>
            (\<forall>row\<in>set (run_droplet_data r).
               row_status row \<noteq> FalsePositive \<and>
               (row_count row = 0 \<longrightarrow>
                  row_status row = TrueNegative \<or> row_status row = FalseNegative)) \<and>
            sum_false_positive (run_summary r) = 0"
    if r: "generate_ddpcr_image_new rng avg conc image_size n fnr 0 var = Inr r" for r
  proof -
    note g = gen_new_Inr [OF r]
    from g(5) have rates: "\<forall>p\<in>set (run_false_positive_rates r). p = 0"
      by auto
    have lens: "length (run_false_positive_rates r) = length (run_molecular_counts r)"
      using g(1,2,3,5) by simp
    have states: "\<forall>st\<in>set (run_droplet_states r). \<not> is_false_positive st"
    proof
      fix st
      assume "st \<in> set (run_droplet_states r)"
      with g(6) obtain i where i: "i < length (run_molecular_counts r)"
        and st: "st = droplet_state_at (randoms rng) (run_molecular_counts r)
                   (run_false_negative_rates r) (run_false_positive_rates r) i"
        by auto
      from i lens rates have "run_false_positive_rates r ! i = 0"
        by simp
      with st u show "\<not> is_false_positive st"
        by (simp add: droplet_state_at_def)
    qed
    have rows: "\<forall>row\<in>set (run_droplet_data r).
               row_status row \<noteq> FalsePositive \<and>
               (row_count row = 0 \<longrightarrow>
                  row_status row = TrueNegative \<or> row_status row = FalseNegative)"
    proof
      fix row
      assume "row \<in> set (run_droplet_data r)"
      from data_loop_rows [OF g(8) this] obtain idx c where
        idx: "idx < length (run_droplet_states r)"
        and rs: "row_status row = display_status_of (run_droplet_states r ! idx) c"
        and rc: "row_count row = c"
        by auto
      from idx states have "\<not> is_false_positive (run_droplet_states r ! idx)"
        by simp
      from display_status_without_false_positive [OF this, of c] rs rc
      show "row_status row \<noteq> FalsePositive \<and>
               (row_count row = 0 \<longrightarrow>
                  row_status row = TrueNegative \<or> row_status row = FalseNegative)"
        by simp
    qed
    from summarize_Inr [OF g(9)] have "sum_false_positive (run_summary r) =
        count_status FalsePositive (run_droplet_data r)"
      by simp
    also from rows have "\<dots> = 0"
      by (simp add: count_status_def)
    finally show ?thesis
      using rates states rows by blast
  qed
  from b data new show ?thesis by blast
qed

theorem no_false_positive_at_zero_rate_witness:
  "rng_ok rng_shift \<and>
   (\<exists>s. calculate_ddpcr_statistics rng_shift binom_pm1 (7 / 2 * sphere_volume_ul 100) 100 300
          (1 / 10) 0 (1 / 10) (95 / 100) = Inr s \<and>
        trace_molecular_counts s = [0, 1, 0] \<and>
        stat_lod_copies_per_ul s = Fin 0 \<and> stat_fp_count s = 0 \<and> stat_tn_count s = 2) \<and>
   (\<exists>r. generate_ddpcr_image_new rng_shift 100 300 (1532, 1024) 3 (1 / 10) 0 (1 / 10) = Inr r \<and>
        map row_count (run_droplet_data r) = [0, 0] \<and>
        (\<forall>row\<in>set (run_droplet_data r). row_status row \<noteq> FalsePositive) \<and>
        sum_false_positive (run_summary r) = 0)"
proof -
  note t = no_false_positive_at_zero_rate [OF rng_ok_shift, where bi = binom_pm1
      and tv = "7 / 2 * sphere_volume_ul 100" and avg = 100 and conc = 300 and fnr = "1 / 10"
      and var = "1 / 10" and cl = "95 / 100" and image_size = "(1532, 1024)" and n = 3]
  have z: "(0::real) \<le> 9 / 10" by simp
  from t data_shift_value [of binom_pm1 "1 / 10" 0 "95 / 100"]
  have d: "\<exists>s. calculate_ddpcr_statistics rng_shift binom_pm1 (7 / 2 * sphere_volume_ul 100) 100
          300 (1 / 10) 0 (1 / 10) (95 / 100) = Inr s \<and>
        trace_molecular_counts s = [0, 1, 0] \<and>
        stat_lod_copies_per_ul s = Fin 0 \<and> stat_fp_count s = 0 \<and> stat_tn_count s = 2"
    by (simp add: statistics_of_fields)
  from t run_shift_general [OF z]
  have n: "\<exists>r. generate_ddpcr_image_new rng_shift 100 300 (1532, 1024) 3 (1 / 10) 0 (1 / 10) =
          Inr r \<and>
        map row_count (run_droplet_data r) = [0, 0] \<and>
        (\<forall>row\<in>set (run_droplet_data r). row_status row \<noteq> FalsePositive) \<and>
        sum_false_positive (run_summary r) = 0"
    by simp
  from d n show ?thesis
    by (simp add: rng_ok_shift)
qed

section \<open>The confidence interval of the concentration\<close>

lemma statistics_of_ci:
  "0 < length counts \<Longrightarrow>
   stat_concentration_ci_lower (statistics_of random bi tv avg fnr fpr cl diameters counts) =
     ci_to_concentration
       (fst (bi cl (length counts)
          (of_nat (stat_tp_count (statistics_of random bi tv avg fnr fpr cl diameters counts) +
                   stat_fp_count (statistics_of random bi tv avg fnr fpr cl diameters counts)) /
           of_nat (length counts))))
       (length counts) (sphere_volume_ul avg)"
  "0 < length counts \<Longrightarrow>
   stat_concentration_ci_upper (statistics_of random bi tv avg fnr fpr cl diameters counts) =
     ci_to_concentration
       (snd (bi cl (length counts)
          (of_nat (stat_tp_count (statistics_of random bi tv avg fnr fpr cl diameters counts) +
                   stat_fp_count (statistics_of random bi tv avg fnr fpr cl diameters counts)) /
           of_nat (length counts))))
       (length counts) (sphere_volume_ul avg)"
  by (simp_all add: statistics_of_def Let_def o_def)

lemma ci_to_concentration_below:
  assumes "0 < v" "0 < n" "k < real n" "lo \<le> k"
  shows "np_le (ci_to_concentration lo n v) (Fin (- ln (1 - k / real n) / v))"
proof -
  have "k / real n < 1" using assms by simp
  then have p: "0 < 1 - k / real n" by simp
  have "lo / real n \<le> k / real n"
    using assms by (simp add: divide_right_mono)
  then have q: "1 - k / real n \<le> 1 - lo / real n" by simp
  with p have "ln (1 - k / real n) \<le> ln (1 - lo / real n)"
    by (intro ln_mono) simp_all
  then have "- ln (1 - lo / real n) / v \<le> - ln (1 - k / real n) / v"
    using assms(1) by (simp add: divide_right_mono)
  with p q assms(1) show ?thesis
    by (simp add: ci_to_concentration_def)
qed

lemma ci_to_concentration_above:
  assumes "0 < v" "0 < n" "k < real n" "k \<le> hi" "hi \<le> real n"
  shows "np_le (Fin (- ln (1 - k / real n) / v)) (ci_to_concentration hi n v)"
proof (cases "hi = real n")
  case True
  with assms show ?thesis
    by (simp add: ci_to_concentration_def)
next
  case False
  with assms have "hi < real n" by simp
  then have "hi / real n < 1" using assms by simp
  then have p: "0 < 1 - hi / real n" by simp
  have "k / real n \<le> hi / real n"
    using assms by (simp add: divide_right_mono)
  then have q: "1 - hi / real n \<le> 1 - k / real n" by simp
  with p have "ln (1 - hi / real n) \<le> ln (1 - k / real n)"
    by (intro ln_mono) simp_all
  then have "- ln (1 - k / real n) / v \<le> - ln (1 - hi / real n) / v"
    using assms(1) by (simp add: divide_right_mono)
  with p assms(1) show ?thesis
    by (simp add: ci_to_concentration_def)
qed

text \<open>
  C6.  Let \<open>calculate_ddpcr_statistics\<close> return for a positive mean diameter, with a
  population that is not empty and an observed positive ratio strictly between 0 and 1,
  and let the binomial interval that the library returns be well formed: its lower bound
  is at most the observed number of positive droplets, its upper bound is at least that
  number and at most the number of droplets.  Then the two reported bounds are the two
  bounds of the binomial interval, each transformed on its own, and
  lower bound \<open>\<le> -ln (1 - positive_ratio) / single_droplet_volume \<le>\<close> upper bound (the
  upper bound is \<open>inf\<close> when the interval reaches the number of droplets).
\<close>

theorem concentration_interval_monotonic:
  assumes "calculate_ddpcr_statistics rng binom_interval total_volume_ul average_diameter_um
             concentration fnr fpr diameter_variance confidence_level = Inr s"
    and "0 < average_diameter_um"
    and "0 < stat_tp_count s + stat_fp_count s"
    and "stat_tp_count s + stat_fp_count s < stat_total_drops s"
    and "binom_interval confidence_level (stat_total_drops s)
           (of_nat (stat_tp_count s + stat_fp_count s) / of_nat (stat_total_drops s)) =
         (ci_lower, ci_upper)"
    and "ci_lower \<le> of_nat (stat_tp_count s + stat_fp_count s)"
    and "of_nat (stat_tp_count s + stat_fp_count s) \<le> ci_upper"
    and "ci_upper \<le> of_nat (stat_total_drops s)"
  shows "stat_concentration_ci_lower s =
           ci_to_concentration ci_lower (stat_total_drops s)
             (sphere_volume_ul average_diameter_um) \<and>
         stat_concentration_ci_upper s =
           ci_to_concentration ci_upper (stat_total_drops s)
             (sphere_volume_ul average_diameter_um) \<and>
         np_le (stat_concentration_ci_lower s)
           (Fin (- ln (1 - of_nat (stat_tp_count s + stat_fp_count s) /
                           of_nat (stat_total_drops s)) /
                 sphere_volume_ul average_diameter_um)) \<and>
         np_le
           (Fin (- ln (1 - of_nat (stat_tp_count s + stat_fp_count s) /
                           of_nat (stat_total_drops s)) /
                 sphere_volume_ul average_diameter_um))
           (stat_concentration_ci_upper s)"
proof -
  let ?k = "stat_tp_count s + stat_fp_count s" and ?n = "stat_total_drops s"
  let ?v = "sphere_volume_ul average_diameter_um"
  from calc_Inr(2) [OF assms(1)] obtain D C where
    sd: "s = statistics_of (randoms rng) binom_interval total_volume_ul average_diameter_um
               fnr fpr confidence_level D C"
    by blast
  have n: "?n = length C"
    by (simp add: sd statistics_of_fields)
  from assms(4) have "0 < ?n"
    by arith
  then have pos: "0 < length C"
    by (simp only: n)
  from assms(5) have bi: "binom_interval confidence_level (length C)
      (of_nat ?k / of_nat (length C)) = (ci_lower, ci_upper)"
    by (simp only: n)
  have lo: "stat_concentration_ci_lower s = ci_to_concentration ci_lower ?n ?v"
    using statistics_of_ci(1) [OF pos, of "randoms rng" binom_interval total_volume_ul
        average_diameter_um fnr fpr confidence_level D] bi
    by (simp add: sd [symmetric] n)
  have hi: "stat_concentration_ci_upper s = ci_to_concentration ci_upper ?n ?v"
    using statistics_of_ci(2) [OF pos, of "randoms rng" binom_interval total_volume_ul
        average_diameter_um fnr fpr confidence_level D] bi
    by (simp add: sd [symmetric] n)
  have v: "0 < ?v"
    using assms(2) by (rule sphere_volume_pos)
  have np: "0 < ?n" using assms(4) by simp
  have kn: "real ?k < real ?n" using assms(4) by simp
  from ci_to_concentration_below [OF v np kn assms(6)]
       ci_to_concentration_above [OF v np kn assms(7,8)] lo hi
  show ?thesis by simp
qed

lemma rng_pos_simps:
  "normals rng_pos i = 0"
  "poissons rng_pos i = (if i = 1 then 1 else 0)"
  "randoms rng_pos i = 9 / 10"
  by (simp_all add: rng_pos_def)

lemma data_pos_value:
  "calculate_ddpcr_statistics rng_pos bi (7 / 2 * sphere_volume_ul 100) 100 300 fnr fpr
     (1 / 10) cl =
   Inr (statistics_of (randoms rng_pos) bi (7 / 2 * sphere_volume_ul 100) 100 fnr fpr cl
          [100, 100, 100] [0, 1, 0])"
proof -
  have p: "\<not> poisson_rejects (300 * sphere_volume_ul 100)"
    by (rule poisson_accepts_rate) simp_all
  show ?thesis
    using p
    by (simp add: calculate_ddpcr_statistics_def Let_def py_truediv_def
          sphere_volume_zero_iff py_int_def rng_normal_def rng_poisson_def rng_pos_simps
          upt3 np_clip_def)
qed

lemma data_pos_tallies:
  "tally_loop (randoms rng_pos) [0, Suc 0, 0] [1 / 10, 1 / 10, 1 / 10]
     [1 / 20, 1 / 20, 1 / 20] =
     \<lparr>true_positive = 1, false_positive = 0, true_negative = 2, false_negative = 0\<rparr>"
  by (simp add: tally_loop_def upt3 tally_step_def rng_pos_simps)

theorem concentration_interval_monotonic_witness:
  "(0::real) < 100 \<and>
   (\<exists>s. calculate_ddpcr_statistics rng_pos binom_pm1 (7 / 2 * sphere_volume_ul 100) 100 300
          (1 / 10) (5 / 100) (1 / 10) (95 / 100) = Inr s \<and>
        stat_tp_count s + stat_fp_count s = 1 \<and> stat_total_drops s = 3 \<and>
        binom_pm1 (95 / 100) 3 (1 / 3) = (0, 2) \<and>
        np_le (stat_concentration_ci_lower s) (Fin (- ln (1 - 1 / 3) / sphere_volume_ul 100)) \<and>
        np_le (Fin (- ln (1 - 1 / 3) / sphere_volume_ul 100)) (stat_concentration_ci_upper s))"
proof -
  define S where "S = statistics_of (randoms rng_pos) binom_pm1 (7 / 2 * sphere_volume_ul 100)
      100 (1 / 10) (5 / 100) (95 / 100) [100, 100, 100] [0, 1, 0]"
  have v: "calculate_ddpcr_statistics rng_pos binom_pm1 (7 / 2 * sphere_volume_ul 100) 100 300
          (1 / 10) (5 / 100) (1 / 10) (95 / 100) = Inr S"
    unfolding S_def by (rule data_pos_value)
  have f: "stat_tp_count S = 1" "stat_fp_count S = 0" "stat_total_drops S = 3"
    by (simp_all add: S_def statistics_of_counts statistics_of_fields data_pos_tallies)
  have b: "binom_pm1 (95 / 100) 3 (1 / 3) = (0, 2)"
    by (simp add: binom_pm1_def)
  have h: "(0::real) < 100" by simp
  have k: "0 < stat_tp_count S + stat_fp_count S"
    "stat_tp_count S + stat_fp_count S < stat_total_drops S"
    by (simp_all add: f)
  have bi: "binom_pm1 (95 / 100) (stat_total_drops S)
      (of_nat (stat_tp_count S + stat_fp_count S) / of_nat (stat_total_drops S)) = (0, 2)"
    by (simp add: f binom_pm1_def)
  have w: "(0::real) \<le> of_nat (stat_tp_count S + stat_fp_count S)"
    "of_nat (stat_tp_count S + stat_fp_count S) \<le> (2::real)"
    "(2::real) \<le> of_nat (stat_total_drops S)"
    by (simp_all add: f)
  note t = concentration_interval_monotonic [OF v h k bi w]
  from t have "np_le (stat_concentration_ci_lower S)
           (Fin (- ln (1 - of_nat (stat_tp_count S + stat_fp_count S) /
                           of_nat (stat_total_drops S)) / sphere_volume_ul 100)) \<and>
         np_le
           (Fin (- ln (1 - of_nat (stat_tp_count S + stat_fp_count S) /
                           of_nat (stat_total_drops S)) / sphere_volume_ul 100))
           (stat_concentration_ci_upper S)"
    by blast
  then have "np_le (stat_concentration_ci_lower S)
          (Fin (- ln (1 - 1 / 3) / sphere_volume_ul 100)) \<and>
        np_le (Fin (- ln (1 - 1 / 3) / sphere_volume_ul 100)) (stat_concentration_ci_upper S)"
    by (simp add: f)
  with v f b h show ?thesis
    by (intro conjI exI [of _ S]) simp_all
qed

end
